theory Spec2Isabelle
  imports Main "HOL-Library.AList"
begin

unbundle bit_operations_syntax

section \<open>Python values: JSON documents and dictionaries\<close>

text \<open>
  The agent passes events and server replies around as the values \<^verbatim>\<open>json.loads\<close>
  produces. \<open>JNull\<close> is Python's \<^verbatim>\<open>None\<close>; a dictionary is an association list
  with distinct keys, in insertion order. Numbers are integers (epoch times and offsets).
  A Python \<^verbatim>\<open>str\<close> is the list of the bytes of its UTF-8 encoding.
\<close>

datatype json =
    JNull
  | JBool bool
  | JNum int
  | JStr string
  | JArr "json list"
  | JObj "(string \<times> json) list"

type_synonym pydict = "(string \<times> json) list"

text \<open>\<^verbatim>\<open>d.get(k)\<close> and \<^verbatim>\<open>d.get(k, default)\<close>.\<close>

definition dict_get :: "pydict \<Rightarrow> string \<Rightarrow> json" where
  "dict_get d k = (case map_of d k of None \<Rightarrow> JNull | Some v \<Rightarrow> v)"

definition dict_get_default :: "pydict \<Rightarrow> string \<Rightarrow> json \<Rightarrow> json" where
  "dict_get_default d k dflt = (case map_of d k of None \<Rightarrow> dflt | Some v \<Rightarrow> v)"

text \<open>\<^verbatim>\<open>d[k] = v\<close>: an existing key keeps its place, a new one goes last.\<close>

definition dict_set :: "pydict \<Rightarrow> string \<Rightarrow> json \<Rightarrow> pydict" where
  "dict_set d k v = AList.update k v d"

text \<open>Python's truth value of an object.\<close>

fun truthy :: "json \<Rightarrow> bool" where
  "truthy JNull = False"
| "truthy (JBool b) = b"
| "truthy (JNum n) = (n \<noteq> 0)"
| "truthy (JStr s) = (s \<noteq> [])"
| "truthy (JArr xs) = (xs \<noteq> [])"
| "truthy (JObj d) = (d \<noteq> [])"

text \<open>\<^verbatim>\<open>a or b\<close> on values.\<close>

definition py_or :: "json \<Rightarrow> json \<Rightarrow> json" where
  "py_or a b = (if truthy a then a else b)"

text \<open>\<^verbatim>\<open>isinstance(obj, dict) and str(obj.get('status')) == 'success'\<close>: \<^verbatim>\<open>str\<close> of a
  value is the text \<^verbatim>\<open>success\<close> only for that string itself.\<close>

fun status_success :: "json \<Rightarrow> bool" where
  "status_success (JObj d) = (dict_get d ''status'' = JStr ''success'')"
| "status_success _ = False"

text \<open>Truth value and \<^verbatim>\<open>or\<close> on optional strings (\<open>None\<close> is Python's \<^verbatim>\<open>None\<close>).\<close>

fun str_truthy :: "string option \<Rightarrow> bool" where
  "str_truthy None = False"
| "str_truthy (Some s) = (s \<noteq> [])"

definition str_or :: "string option \<Rightarrow> string option \<Rightarrow> string option" where
  "str_or a b = (if str_truthy a then a else b)"

fun json_of_str :: "string option \<Rightarrow> json" where
  "json_of_str None = JNull"
| "json_of_str (Some s) = JStr s"

section \<open>The libraries the agent calls\<close>

text \<open>
  Functions of \<^verbatim>\<open>json\<close>, \<^verbatim>\<open>base64\<close>, \<^verbatim>\<open>hashlib\<close>, PyCryptodome and
  \<^verbatim>\<open>cryptography\<close> that the repository calls and does not define. They are taken as
  they come: every definition below receives them in \<open>lib\<close>, and nothing is assumed of
  them but what a theorem states. A result \<open>None\<close> stands for a raised exception.
  RSA keys are opaque: a private key is named by a number.
\<close>

type_synonym private_key = nat

record pylib =
  json_loads :: "string \<Rightarrow> json option"
  json_dumps :: "json \<Rightarrow> string"
  b64decode :: "string \<Rightarrow> string option"
  utf8_valid :: "string \<Rightarrow> bool"
  sha256 :: "string \<Rightarrow> string"
  aes_encrypt_block :: "string \<Rightarrow> string \<Rightarrow> string"
  pbkdf2_hmac_sha256 :: "string \<Rightarrow> string \<Rightarrow> nat \<Rightarrow> nat \<Rightarrow> string"
  rsa_oaep_decrypt :: "private_key \<Rightarrow> string \<Rightarrow> string option"
  rsa_oaep_encrypt :: "json \<Rightarrow> string \<Rightarrow> string option"

subsection \<open>Bytes\<close>

fun xor_char :: "char \<Rightarrow> char \<Rightarrow> char" where
  "xor_char (Char a0 a1 a2 a3 a4 a5 a6 a7) (Char b0 b1 b2 b3 b4 b5 b6 b7) =
     Char (a0 \<noteq> b0) (a1 \<noteq> b1) (a2 \<noteq> b2) (a3 \<noteq> b3) (a4 \<noteq> b4) (a5 \<noteq> b5) (a6 \<noteq> b6) (a7 \<noteq> b7)"

text \<open>
  \<^verbatim>\<open>s.strip()\<close> removes the leading and the trailing whitespace characters of a
  string. Strings are held as their UTF-8 bytes, so a whitespace character is one of the
  byte sequences below: the code points 9 to 13, 28 to 32, U+0085, U+00A0, U+1680,
  U+2000 to U+200A, U+2028, U+2029, U+202F, U+205F and U+3000, the ones
  \<^verbatim>\<open>str.isspace\<close> accepts.
\<close>

definition whitespace_utf8 :: "string list" where
  "whitespace_utf8 =
     [[CHR 0x09], [CHR 0x0A], [CHR 0x0B], [CHR 0x0C], [CHR 0x0D],
      [CHR 0x1C], [CHR 0x1D], [CHR 0x1E], [CHR 0x1F], [CHR 0x20],
      [CHR 0xC2, CHR 0x85], [CHR 0xC2, CHR 0xA0],
      [CHR 0xE1, CHR 0x9A, CHR 0x80],
      [CHR 0xE2, CHR 0x80, CHR 0x80], [CHR 0xE2, CHR 0x80, CHR 0x81],
      [CHR 0xE2, CHR 0x80, CHR 0x82], [CHR 0xE2, CHR 0x80, CHR 0x83],
      [CHR 0xE2, CHR 0x80, CHR 0x84], [CHR 0xE2, CHR 0x80, CHR 0x85],
      [CHR 0xE2, CHR 0x80, CHR 0x86], [CHR 0xE2, CHR 0x80, CHR 0x87],
      [CHR 0xE2, CHR 0x80, CHR 0x88], [CHR 0xE2, CHR 0x80, CHR 0x89],
      [CHR 0xE2, CHR 0x80, CHR 0x8A],
      [CHR 0xE2, CHR 0x80, CHR 0xA8], [CHR 0xE2, CHR 0x80, CHR 0xA9],
      [CHR 0xE2, CHR 0x80, CHR 0xAF], [CHR 0xE2, CHR 0x81, CHR 0x9F],
      [CHR 0xE3, CHR 0x80, CHR 0x80]]"

text \<open>Dropping, at most \<open>n\<close> times, a leading sequence that is one of \<open>seqs\<close>.\<close>

fun lstrip_seqs :: "string list \<Rightarrow> nat \<Rightarrow> string \<Rightarrow> string" where
  "lstrip_seqs seqs 0 s = s"
| "lstrip_seqs seqs (Suc n) s =
     (case find (\<lambda>w. take (length w) s = w) seqs of
        None \<Rightarrow> s
      | Some w \<Rightarrow> lstrip_seqs seqs n (drop (length w) s))"

definition py_strip :: "string \<Rightarrow> string" where
  "py_strip s =
     (let l = lstrip_seqs whitespace_utf8 (length s) s
      in rev (lstrip_seqs (map rev whitespace_utf8) (length l) (rev l)))"

text \<open>\<^verbatim>\<open>s.rstrip(b'=')\<close> on bytes.\<close>

definition rstrip_eq :: "string \<Rightarrow> string" where
  "rstrip_eq s = rev (dropWhile (\<lambda>c. c = CHR ''='') (rev s))"

text \<open>\<^verbatim>\<open>bytes.hex()\<close>, as \<^verbatim>\<open>hexdigest\<close> prints a digest.\<close>

definition hex_digit :: "nat \<Rightarrow> char" where
  "hex_digit n = ''0123456789abcdef'' ! (n mod 16)"

definition hex :: "string \<Rightarrow> string" where
  "hex bs = concat (map (\<lambda>c. [hex_digit (of_char c div 16), hex_digit (of_char c mod 16)]) bs)"

subsection \<open>base64 (RFC 4648), as \<^verbatim>\<open>base64.b64encode\<close> and \<^verbatim>\<open>urlsafe_b64encode\<close> write it\<close>

definition b64_alphabet :: string where
  "b64_alphabet = ''ABCDEFGHIJKLMNOPQRSTUVWXYZabcdefghijklmnopqrstuvwxyz0123456789+/''"

definition b64_char :: "nat \<Rightarrow> char" where
  "b64_char n = b64_alphabet ! (n mod 64)"

fun b64encode :: "string \<Rightarrow> string" where
  "b64encode (a # b # c # rest) =
     [b64_char (of_char a div 4),
      b64_char ((of_char a mod 4) * 16 + of_char b div 16),
      b64_char ((of_char b mod 16) * 4 + of_char c div 64),
      b64_char (of_char c mod 64)] @ b64encode rest"
| "b64encode [a, b] =
     [b64_char (of_char a div 4),
      b64_char ((of_char a mod 4) * 16 + of_char b div 16),
      b64_char ((of_char b mod 16) * 4),
      CHR ''='']"
| "b64encode [a] =
     [b64_char (of_char a div 4), b64_char ((of_char a mod 4) * 16), CHR ''='', CHR ''='']"
| "b64encode [] = []"

text \<open>\<^verbatim>\<open>urlsafe_b64encode(s) = b64encode(s).translate(+ to -, / to _)\<close>.\<close>

definition urlsafe_translate :: "char \<Rightarrow> char" where
  "urlsafe_translate c = (if c = CHR ''+'' then CHR ''-'' else if c = CHR ''/'' then CHR ''_'' else c)"

definition urlsafe_b64encode :: "string \<Rightarrow> string" where
  "urlsafe_b64encode s = map urlsafe_translate (b64encode s)"

subsection \<open>HMAC (RFC 2104) over the library's SHA-256, as \<^verbatim>\<open>hmac.new(key, msg, sha256)\<close>\<close>

definition hmac_sha256 :: "pylib \<Rightarrow> string \<Rightarrow> string \<Rightarrow> string" where
  "hmac_sha256 lib key msg =
     (let k0 = (if length key > 64 then sha256 lib key else key);
          kp = k0 @ replicate (64 - length k0) (CHR 0x00)
      in sha256 lib (map (xor_char (CHR 0x5C)) kp @ sha256 lib (map (xor_char (CHR 0x36)) kp @ msg)))"

text \<open>The 64-byte key block of that computation: a key longer than 64 bytes is hashed first.\<close>

definition hmac_key_block :: "pylib \<Rightarrow> string \<Rightarrow> string" where
  "hmac_key_block lib key =
     (let k0 = (if length key > 64 then sha256 lib key else key)
      in k0 @ replicate (64 - length k0) (CHR 0x00))"

text \<open>What the outer hash of that computation is taken of.\<close>

definition hmac_outer_input :: "pylib \<Rightarrow> string \<Rightarrow> string \<Rightarrow> string" where
  "hmac_outer_input lib key msg =
     map (xor_char (CHR 0x5C)) (hmac_key_block lib key)
       @ sha256 lib (map (xor_char (CHR 0x36)) (hmac_key_block lib key) @ msg)"

subsection \<open>AES in ECB and CTR mode over the library's block encryption\<close>

text \<open>
  AES maps a 16-byte block to a 16-byte block; \<open>block16\<close> makes any function given
  as \<open>aes_encrypt_block\<close> one. PyCryptodome's CTR mode with a nonce of \<open>n < 16\<close> bytes
  encrypts the counter blocks \<open>nonce || counter\<close>, the counter big-endian in \<open>16 - n\<close>
  bytes from 0, and XORs the result onto the data.
\<close>

definition block16 :: "string \<Rightarrow> string" where
  "block16 s = take 16 (s @ replicate 16 (CHR 0x00))"

definition aes_ecb_block :: "pylib \<Rightarrow> string \<Rightarrow> string \<Rightarrow> string" where
  "aes_ecb_block lib key blk = block16 (aes_encrypt_block lib key blk)"

fun be_bytes :: "nat \<Rightarrow> nat \<Rightarrow> string" where
  "be_bytes 0 v = []"
| "be_bytes (Suc n) v = be_bytes n (v div 256) @ [char_of (v mod 256)]"

definition ctr_keystream :: "pylib \<Rightarrow> string \<Rightarrow> string \<Rightarrow> nat \<Rightarrow> string" where
  "ctr_keystream lib key nonce nblocks =
     concat (map (\<lambda>i. aes_ecb_block lib key (nonce @ be_bytes (16 - length nonce) i)) [0..<nblocks])"

definition aes_ctr :: "pylib \<Rightarrow> string \<Rightarrow> string \<Rightarrow> string \<Rightarrow> string" where
  "aes_ctr lib key nonce data =
     map (\<lambda>(c, k). xor_char c k) (zip data (ctr_keystream lib key nonce ((length data + 15) div 16)))"

section \<open>security/aes\_ctr.py\<close>

text \<open>
  \<^verbatim>\<open>AesCtr.encrypt\<close> and \<^verbatim>\<open>AesCtr.decrypt\<close> at \<^verbatim>\<open>n_bits = 128\<close>, the one size
  \<^verbatim>\<open>MySecurity\<close> passes, so \<^verbatim>\<open>n_bytes = 16\<close>. \<open>now\<close> is \<^verbatim>\<open>int(time.time() * 1000)\<close>
  and \<open>rnd\<close> is \<^verbatim>\<open>int.from_bytes(os.urandom(2), "little")\<close>.
\<close>

definition zero_pad :: "nat \<Rightarrow> string \<Rightarrow> string" where
  "zero_pad n_bytes pw_input =
     map (\<lambda>i. if i < length pw_input then pw_input ! i else CHR 0x00) [0..<n_bytes]"

definition aes_key :: "pylib \<Rightarrow> string \<Rightarrow> string" where
  "aes_key lib password =
     (let pw_bytes = zero_pad 16 password;
          key_material = aes_ecb_block lib pw_bytes pw_bytes
      in take 16 key_material)"

definition nonce_iv :: "nat \<Rightarrow> nat \<Rightarrow> string" where
  "nonce_iv now rnd =
     (let nonce_ms = now mod 1000; nonce_sec = now div 1000
      in [char_of (nonce_ms AND 255), char_of (drop_bit 8 nonce_ms AND 255),
          char_of (rnd AND 255), char_of (drop_bit 8 rnd AND 255),
          char_of (nonce_sec AND 255), char_of (drop_bit 8 nonce_sec AND 255),
          char_of (drop_bit 16 nonce_sec AND 255), char_of (drop_bit 24 nonce_sec AND 255)]
         @ replicate 8 (CHR 0x00))"

definition AesCtr_encrypt :: "pylib \<Rightarrow> nat \<Rightarrow> nat \<Rightarrow> string \<Rightarrow> string \<Rightarrow> string" where
  "AesCtr_encrypt lib now rnd plaintext password =
     (let key = aes_key lib password;
          iv = nonce_iv now rnd;
          cipher_bytes = aes_ctr lib key (take 8 iv) plaintext
      in b64encode (take 8 iv @ cipher_bytes))"

definition AesCtr_decrypt :: "pylib \<Rightarrow> string \<Rightarrow> string \<Rightarrow> string option" where
  "AesCtr_decrypt lib ciphertext_b64 password =
     (case b64decode lib ciphertext_b64 of
        None \<Rightarrow> None
      | Some data \<Rightarrow>
          (let key = aes_key lib password;
               nonce = take 8 data;
               cipher_bytes = drop 8 data;
               plaintext = aes_ctr lib key nonce cipher_bytes
           in if utf8_valid lib plaintext then Some plaintext else None))"

section \<open>security/my\_security.py\<close>

text \<open>
  The key is the channel secret, which may be \<^verbatim>\<open>None\<close>: then \<^verbatim>\<open>key.encode\<close> raises,
  \<^verbatim>\<open>encrypt\<close> returns the empty string and \<^verbatim>\<open>hash\<close> and \<^verbatim>\<open>decrypt\<close> return None.
\<close>

definition MySecurity_encrypt :: "pylib \<Rightarrow> nat \<Rightarrow> nat \<Rightarrow> string \<Rightarrow> string option \<Rightarrow> string" where
  "MySecurity_encrypt lib now rnd plain key =
     (case key of None \<Rightarrow> [] | Some k \<Rightarrow> AesCtr_encrypt lib now rnd plain k)"

definition MySecurity_decrypt :: "pylib \<Rightarrow> json \<Rightarrow> string option \<Rightarrow> string option" where
  "MySecurity_decrypt lib cipher key =
     (case cipher of
        JStr c \<Rightarrow> (case key of None \<Rightarrow> None | Some k \<Rightarrow> AesCtr_decrypt lib c k)
      | _ \<Rightarrow> None)"

definition MySecurity_hash :: "pylib \<Rightarrow> string \<Rightarrow> string option \<Rightarrow> json" where
  "MySecurity_hash lib msg key_str =
     (case key_str of None \<Rightarrow> JNull | Some k \<Rightarrow> JStr (hex (hmac_sha256 lib k msg)))"

definition encrypt_and_sign :: "pylib \<Rightarrow> nat \<Rightarrow> nat \<Rightarrow> string \<Rightarrow> string option \<Rightarrow> string" where
  "encrypt_and_sign lib now rnd message key =
     json_dumps lib (JObj [(''cipher'', JStr (MySecurity_encrypt lib now rnd message key)),
                           (''hash'', MySecurity_hash lib message key)])"

text \<open>
  \<^verbatim>\<open>decrypt_and_verify\<close> catches every exception and returns None: when the argument is
  not a string or not JSON, when the document is not a dictionary, when either hash is
  not a string.
\<close>

definition decrypt_and_verify :: "pylib \<Rightarrow> json \<Rightarrow> string option \<Rightarrow> string option" where
  "decrypt_and_verify lib cipher_msg_str key =
     (case cipher_msg_str of
        JStr t \<Rightarrow>
          (case json_loads lib t of
             Some (JObj cipher_msg) \<Rightarrow>
               (case MySecurity_decrypt lib (dict_get_default cipher_msg ''cipher'' (JStr [])) key of
                  None \<Rightarrow> None
                | Some message \<Rightarrow>
                    (case MySecurity_hash lib message key of
                       JStr h \<Rightarrow>
                         (case dict_get_default cipher_msg ''hash'' (JStr []) of
                            JStr h' \<Rightarrow> if py_strip h \<noteq> py_strip h' then None else Some message
                          | _ \<Rightarrow> None)
                     | _ \<Rightarrow> None))
           | _ \<Rightarrow> None)
      | _ \<Rightarrow> None)"

text \<open>
  \<^verbatim>\<open>derive_channel_secret\<close>. The second form takes the values the password reply
  delivers: \<^verbatim>\<open>channel_name + password\<close> raises unless both are strings.
\<close>

definition derive_channel_secret :: "pylib \<Rightarrow> string \<Rightarrow> string \<Rightarrow> string" where
  "derive_channel_secret lib channel_name password =
     (let combined = channel_name @ password;
          salt = ''messaging-platform'';
          iterations = 100000;
          key_length = 32;
          key_bytes = pbkdf2_hmac_sha256 lib combined salt iterations key_length
      in ''channel_'' @ rstrip_eq (urlsafe_b64encode key_bytes))"

fun derive_channel_secret_json :: "pylib \<Rightarrow> json \<Rightarrow> json \<Rightarrow> string option" where
  "derive_channel_secret_json lib (JStr n) (JStr p) = Some (derive_channel_secret lib n p)"
| "derive_channel_secret_json lib _ _ = None"

text \<open>\<^verbatim>\<open>MySecurity.rsa_decrypt\<close>: base64-decode, OAEP-decrypt, decode as UTF-8.\<close>

definition MySecurity_rsa_decrypt :: "pylib \<Rightarrow> private_key \<Rightarrow> json \<Rightarrow> string option" where
  "MySecurity_rsa_decrypt lib priv base64_cipher =
     (case base64_cipher of
        JStr t \<Rightarrow>
          (case b64decode lib t of
             None \<Rightarrow> None
           | Some ct \<Rightarrow>
               (case rsa_oaep_decrypt lib priv ct of
                  None \<Rightarrow> None
                | Some plain \<Rightarrow> if utf8_valid lib plain then Some plain else None))
      | _ \<Rightarrow> None)"

text \<open>\<^verbatim>\<open>MySecurity.rsa_encrypt\<close> with the public key as the caller has it.\<close>

definition MySecurity_rsa_encrypt :: "pylib \<Rightarrow> json \<Rightarrow> string \<Rightarrow> string option" where
  "MySecurity_rsa_encrypt lib public_key plaintext =
     (case rsa_oaep_encrypt lib public_key plaintext of
        None \<Rightarrow> None
      | Some ct \<Rightarrow> Some (b64encode ct))"

section \<open>The environment: HTTP replies\<close>

text \<open>
  What \<^verbatim>\<open>HttpClient.request\<close> followed by \<^verbatim>\<open>json.loads\<close> gives the caller:
  the request timed out, it raised another exception (or the body was not JSON), or it
  returned the body text, here with the document the text parses to.
\<close>

datatype reply = Timeout | Failed | Body string json

section \<open>api/models.py\<close>

record ChannelState =
  topicName :: json
  channelId :: json
  channelName :: json
  channelPassword :: json
  globalOffset :: json
  localOffset :: json
  originalGlobalOffset :: json
  originalLocalOffset :: json

record ConnectResponse =
  cr_sessionId :: json
  cr_channelId :: json
  cr_date :: json
  cr_state :: "ChannelState option"

record ReceiveConfig =
  rc_globalOffset :: json
  rc_localOffset :: json
  rc_limit :: json
  rc_pollSource :: json

record EventMessageResult =
  events :: "json list"
  nextGlobalOffset :: json
  nextLocalOffset :: json
  ephemeralEvents :: "json list option"

record AgentInfo =
  agentName :: json
  date :: json
  meta :: "pydict option"

section \<open>State of MessagingChannelApi and AgentConnection\<close>

text \<open>
  An effect is what a call does to the world outside the two objects: a POST to a path
  with its JSON body, closing the UDP socket, generating an RSA key pair, reading or
  writing the session-recovery file, a sleep, and a batch handed to the caller's handler.
\<close>

datatype effect =
    HttpPost string pydict
  | UdpClose
  | RsaGenerate
  | LoadSession "string option"
  | SaveSession "string option" json
  | Sleep
  | Deliver "json list"

record api_state =
  api_channel_secret :: "string option"
  api_ready_state :: bool
  api_session_id :: json
  api_channel_state :: "ChannelState option"
  api_default_poll_source :: string
  api_channel_password :: json
  udp_closed :: bool

record agent_state =
  connection_time :: json
  agent_name :: "string option"
  channel_id :: json
  channel_secret :: "string option"
  initial_receive_config :: "ReceiveConfig option"
  current_receive_config :: "ReceiveConfig option"
  channel_api :: api_state
  check_last_session :: bool
  enable_webrtc_relay :: bool
  session_id :: json
  ready_state :: bool
  channel_name :: json
  channel_password :: json
  key_pair :: "(private_key \<times> string) option"
  pending_private_key :: "private_key option"
  pending_request_id :: "string option"
  password_request_handler :: "(json \<Rightarrow> json \<Rightarrow> json \<Rightarrow> bool option) option"
  log :: "effect list"

text \<open>\<^verbatim>\<open>AgentConnection.__init__\<close> and \<^verbatim>\<open>MessagingChannelApi.__init__\<close>.\<close>

definition api_init :: api_state where
  "api_init = \<lparr> api_channel_secret = None, api_ready_state = False, api_session_id = JNull,
      api_channel_state = None, api_default_poll_source = ''AUTO'',
      api_channel_password = JNull, udp_closed = False \<rparr>"

definition agent_init :: agent_state where
  "agent_init = \<lparr> connection_time = JNull, agent_name = None, channel_id = JNull,
      channel_secret = None, initial_receive_config = None, current_receive_config = None,
      channel_api = api_init, check_last_session = True, enable_webrtc_relay = False,
      session_id = JNull, ready_state = False, channel_name = JNull, channel_password = JNull,
      key_pair = None, pending_private_key = None, pending_request_id = None,
      password_request_handler = None, log = [] \<rparr>"

definition emit :: "effect \<Rightarrow> agent_state \<Rightarrow> agent_state" where
  "emit e s = s\<lparr>log := log s @ [e]\<rparr>"

text \<open>The paths of the HTTP requests of a log, in the order they were posted.\<close>

fun posted_paths :: "effect list \<Rightarrow> string list" where
  "posted_paths [] = []"
| "posted_paths (HttpPost path payload # es) = path # posted_paths es"
| "posted_paths (_ # es) = posted_paths es"

text \<open>\<^verbatim>\<open>AgentConnection.is_ready\<close>.\<close>

definition is_ready :: "agent_state \<Rightarrow> bool" where
  "is_ready s = (if \<not> ready_state s then False else if session_id s = JNull then False else True)"

section \<open>disconnect\<close>

text \<open>
  \<^verbatim>\<open>MessagingChannelApi.disconnect\<close>: the UDP client is closed first; then the POST.
  When the request or the parse raises, the method returns False with the session kept.
\<close>

definition api_disconnect :: "reply \<Rightarrow> json \<Rightarrow> agent_state \<Rightarrow> agent_state \<times> bool" where
  "api_disconnect r sid s =
     (let s1 = emit (HttpPost ''/disconnect'' [(''sessionId'', sid)])
                 (emit UdpClose (s\<lparr>channel_api := (channel_api s)\<lparr>udp_closed := True\<rparr>\<rparr>))
      in case r of
           Body txt obj \<Rightarrow>
             (s1\<lparr>channel_api := (channel_api s1)\<lparr>api_ready_state := False, api_session_id := JNull\<rparr>\<rparr>,
              status_success obj)
         | _ \<Rightarrow> (s1, False))"

text \<open>\<^verbatim>\<open>AgentConnection.disconnect\<close>.\<close>

definition disconnect :: "reply \<Rightarrow> agent_state \<Rightarrow> agent_state \<times> bool" where
  "disconnect r s =
     (if \<not> is_ready s then (s, False)
      else case api_disconnect r (session_id s) s of
        (s1, result) \<Rightarrow>
          if result
          then (s1\<lparr>session_id := JNull, ready_state := False, pending_private_key := None,
                    pending_request_id := None, key_pair := None\<rparr>, True)
          else (s1, False))"

section \<open>connect\<close>

text \<open>
  \<^verbatim>\<open>MessagingChannelApi._create_channel\<close>: every failure (the request, the parse, the
  recursion guard, a reply that is not a success envelope) gives None.
\<close>

definition create_channel_result :: "reply \<Rightarrow> json" where
  "create_channel_result r =
     (case r of
        Body txt obj \<Rightarrow>
          (if status_success obj
           then (case obj of
                   JObj d \<Rightarrow> (case dict_get_default d ''data'' (JObj []) of
                               JObj data \<Rightarrow> dict_get data ''channelId''
                             | _ \<Rightarrow> JNull)
                 | _ \<Rightarrow> JNull)
           else JNull)
      | _ \<Rightarrow> JNull)"

definition create_agent_context :: json where
  "create_agent_context =
     JObj [(''agentType'', JStr ''PYTHON-AGENT''),
           (''descriptor'', JStr ''hmdev/messaging/agent/api/http/messaging_channel_api.py'')]"

text \<open>
  The channel state the API object builds from the reply's \<^verbatim>\<open>state\<close> dictionary: the
  constructor call passes four fields; the offsets keep the dataclass default None.
\<close>

definition channel_state_of :: "pydict \<Rightarrow> ChannelState" where
  "channel_state_of md =
     \<lparr> topicName = dict_get md ''topicName'', channelId = dict_get md ''channelId'',
       channelName = dict_get md ''channelName'', channelPassword = dict_get md ''channelPassword'',
       globalOffset = JNull, localOffset = JNull,
       originalGlobalOffset = JNull, originalLocalOffset = JNull \<rparr>"

definition empty_ConnectResponse :: ConnectResponse where
  "empty_ConnectResponse = \<lparr> cr_sessionId = JNull, cr_channelId = JNull, cr_date = JNull, cr_state = None \<rparr>"

definition state_dict :: "pydict \<Rightarrow> json" where
  "state_dict d = py_or (py_or (dict_get d ''state'') (dict_get d ''metadata'')) (dict_get d ''ChannelState'')"

definition api_set_connected :: "json \<Rightarrow> ChannelState option \<Rightarrow> agent_state \<Rightarrow> agent_state" where
  "api_set_connected session st s =
     s\<lparr>channel_api := (channel_api s)\<lparr>api_ready_state := True, api_session_id := session,
          api_default_poll_source := ''AUTO'',
          api_channel_state := (case st of None \<Rightarrow> api_channel_state (channel_api s) | Some x \<Rightarrow> Some x)\<rparr>\<rparr>"

text \<open>What \<^verbatim>\<open>MessagingChannelApi.connect\<close> makes of the reply to the POST to /connect.\<close>

definition connect_reply_result :: "reply \<Rightarrow> agent_state \<Rightarrow> agent_state \<times> ConnectResponse" where
  "connect_reply_result r s =
     (case r of
        Body response_text json_data \<Rightarrow>
          (case json_data of
             JObj jd \<Rightarrow>
               (if status_success json_data
                then (case dict_get_default jd ''data'' (JObj []) of
                        JObj data \<Rightarrow>
                          (let session = py_or (dict_get data ''sessionId'') (dict_get data ''session'');
                               date = dict_get data ''date''
                           in case state_dict data of
                                JObj md \<Rightarrow>
                                  (let st = channel_state_of md;
                                       channel_id_resp = py_or (channelId st) (dict_get data ''channelId'')
                                   in (api_set_connected session (Some st) s,
                                       \<lparr> cr_sessionId = session, cr_channelId = channel_id_resp,
                                         cr_date = date, cr_state = Some st \<rparr>))
                              | _ \<Rightarrow>
                                  (api_set_connected session None s,
                                   \<lparr> cr_sessionId = session, cr_channelId = JNull,
                                     cr_date = date, cr_state = None \<rparr>))
                      | _ \<Rightarrow>
                          (api_set_connected JNull None s, empty_ConnectResponse))
                else (let session = py_or (dict_get jd ''sessionId'') (dict_get jd ''session'')
                      in case state_dict jd of
                           JObj md \<Rightarrow>
                             (let st = channel_state_of md
                              in (api_set_connected session (Some st) s,
                                  \<lparr> cr_sessionId = session, cr_channelId = channelId st,
                                    cr_date = JNull, cr_state = Some st \<rparr>))
                         | _ \<Rightarrow>
                             (api_set_connected session None s,
                              \<lparr> cr_sessionId = session, cr_channelId = JNull,
                                cr_date = JNull, cr_state = None \<rparr>)))
           | _ \<Rightarrow>
               (if py_strip response_text \<noteq> []
                then (api_set_connected (JStr (py_strip response_text)) None s,
                      \<lparr> cr_sessionId = JStr (py_strip response_text), cr_channelId = JNull,
                        cr_date = JNull, cr_state = None \<rparr>)
                else (s, empty_ConnectResponse)))
      | _ \<Rightarrow> (s, empty_ConnectResponse))"

text \<open>
  \<^verbatim>\<open>MessagingChannelApi.connect\<close>. \<open>create_r\<close> and \<open>connect_r\<close> are the server's
  replies to /create-channel and /connect.
\<close>

definition api_connect ::
  "pylib \<Rightarrow> reply \<Rightarrow> reply \<Rightarrow> string option \<Rightarrow> string option \<Rightarrow> string option \<Rightarrow> json
     \<Rightarrow> string option \<Rightarrow> bool \<Rightarrow> string option \<Rightarrow> agent_state \<Rightarrow> agent_state \<times> ConnectResponse" where
  "api_connect lib create_r connect_r chan_name chan_password agent session chan_id relay scope s =
     (let have_credentials = (if str_truthy chan_name then str_truthy chan_password else False);
          secret = (if have_credentials
                    then Some (derive_channel_secret lib (the chan_name) (the chan_password))
                    else api_channel_secret (channel_api s));
          password_hash = (if have_credentials
                           then MySecurity_hash lib (the chan_password) secret else JNull);
          s1 = s\<lparr>channel_api := (channel_api s)\<lparr>api_channel_secret := secret\<rparr>\<rparr>
      in if \<not> str_truthy chan_id \<and> \<not> have_credentials then (s1, empty_ConnectResponse)
         else
           (let s2 = (if str_truthy chan_id then s1
                      else emit (HttpPost ''/create-channel''
                                   [(''channelName'', json_of_str chan_name),
                                    (''channelPassword'', password_hash)]) s1);
                cid = (if str_truthy chan_id then json_of_str chan_id
                       else create_channel_result create_r);
                p1 = (if truthy cid then [(''channelId'', cid)] else []);
                p2 = (if str_truthy chan_name \<and> truthy password_hash
                      then dict_set (dict_set p1 ''channelName'' (json_of_str chan_name))
                             ''channelPassword'' password_hash
                      else p1);
                p3 = dict_set (dict_set (dict_set (dict_set p2 ''agentName'' (json_of_str agent))
                          ''agentContext'' create_agent_context)
                          ''enableWebrtcRelay'' (JBool relay))
                          ''apiKeyScope'' (json_of_str (str_or scope (Some ''private'')));
                payload = (if truthy session then dict_set p3 ''sessionId'' session else p3)
            in connect_reply_result connect_r (emit (HttpPost ''/connect'' payload) s2)))"

text \<open>
  \<^verbatim>\<open>MessagingChannelApi.send\<close> for an event sent in the clear (\<^verbatim>\<open>encrypted=False\<close>),
  as the password exchange sends its two events. The callers drop the result.
\<close>

definition api_send_plain :: "json \<Rightarrow> json \<Rightarrow> json \<Rightarrow> string \<Rightarrow> agent_state \<Rightarrow> agent_state" where
  "api_send_plain msg to_agent session event_type s =
     emit (HttpPost ''/push''
             [(''type'', JStr (if event_type = [] then ''chat-text'' else event_type)),
              (''to'', to_agent), (''encrypted'', JBool False), (''content'', msg),
              (''sessionId'', session)]) s"

section \<open>Ordering of Python values\<close>

text \<open>
  \<^verbatim>\<open>a < b\<close>, \<^verbatim>\<open>a <= b\<close> and \<^verbatim>\<open>a > b\<close> on event dates and connection times. Two
  numbers are compared as numbers (a bool counts as 0 or 1) and two strings by code
  point, which on UTF-8 is the order of the bytes. Between a number and a string, and
  whenever one side is None or a dictionary, Python raises, which is \<open>None\<close> here. Two
  lists, which Python compares element by element, are taken to raise as well.
\<close>

fun num_of :: "json \<Rightarrow> int option" where
  "num_of (JNum n) = Some n"
| "num_of (JBool b) = Some (if b then 1 else 0)"
| "num_of _ = None"

fun str_lt :: "string \<Rightarrow> string \<Rightarrow> bool" where
  "str_lt [] [] = False"
| "str_lt [] (y # ys) = True"
| "str_lt (x # xs) [] = False"
| "str_lt (x # xs) (y # ys) =
     (if (of_char x :: nat) < of_char y then True
      else if x = y then str_lt xs ys
      else False)"

definition py_lt :: "json \<Rightarrow> json \<Rightarrow> bool option" where
  "py_lt a b =
     (case num_of a of
        Some x \<Rightarrow> (case num_of b of None \<Rightarrow> None | Some y \<Rightarrow> Some (x < y))
      | None \<Rightarrow> (case a of
                  JStr u \<Rightarrow> (case b of JStr v \<Rightarrow> Some (str_lt u v) | _ \<Rightarrow> None)
                | _ \<Rightarrow> None))"

definition py_le :: "json \<Rightarrow> json \<Rightarrow> bool option" where
  "py_le a b =
     (case num_of a of
        Some x \<Rightarrow> (case num_of b of None \<Rightarrow> None | Some y \<Rightarrow> Some (x \<le> y))
      | None \<Rightarrow> (case a of
                  JStr u \<Rightarrow> (case b of JStr v \<Rightarrow> Some (\<not> str_lt v u) | _ \<Rightarrow> None)
                | _ \<Rightarrow> None))"

definition py_gt :: "json \<Rightarrow> json \<Rightarrow> bool option" where
  "py_gt a b =
     (case num_of a of
        Some x \<Rightarrow> (case num_of b of None \<Rightarrow> None | Some y \<Rightarrow> Some (x > y))
      | None \<Rightarrow> (case a of
                  JStr u \<Rightarrow> (case b of JStr v \<Rightarrow> Some (str_lt v u) | _ \<Rightarrow> None)
                | _ \<Rightarrow> None))"

section \<open>util/password\_utils.py\<close>

text \<open>
  The plaintext of a reply is a bare password or JSON with \<^verbatim>\<open>channelName\<close> and
  \<^verbatim>\<open>channelPassword\<close>: the pair (channel_name, channel_password) both readers extract.
\<close>

definition reply_credentials :: "pylib \<Rightarrow> string \<Rightarrow> json \<times> json" where
  "reply_credentials lib dec =
     (case json_loads lib dec of
        Some (JObj p) \<Rightarrow>
          (if truthy (dict_get p ''channelName'') then dict_get p ''channelName'' else JNull,
           if truthy (dict_get p ''channelPassword'') then dict_get p ''channelPassword'' else JStr dec)
      | _ \<Rightarrow> (JNull, JStr dec))"

text \<open>
  One event of \<^verbatim>\<open>wait_for_password_reply\<close>'s loop: \<open>Some api\<close> when the function
  returns True there with the API object as left, \<open>None\<close> when the loop continues.
\<close>

definition wait_cipher :: "pylib \<Rightarrow> json \<Rightarrow> string option \<Rightarrow> json option" where
  "wait_cipher lib content expected_request_id =
     (case content of
        JStr c \<Rightarrow>
          (case json_loads lib c of
             None \<Rightarrow> Some content
           | Some (JObj parsed) \<Rightarrow>
               (if map_of parsed ''requestId'' \<noteq> None \<and> expected_request_id \<noteq> None
                    \<and> dict_get parsed ''requestId'' \<noteq> json_of_str expected_request_id
                then None
                else Some (py_or (dict_get parsed ''cipher'') (dict_get parsed ''content'')))
           | Some _ \<Rightarrow> Some JNull)
      | _ \<Rightarrow> Some content)"

definition wait_apply :: "pylib \<Rightarrow> string \<Rightarrow> api_state \<Rightarrow> api_state" where
  "wait_apply lib dec api =
     (case reply_credentials lib dec of
        (chan_name, chan_password) \<Rightarrow>
          (if truthy chan_name
           then (case derive_channel_secret_json lib chan_name chan_password of
                   None \<Rightarrow> api
                 | Some secret \<Rightarrow> api\<lparr>api_channel_secret := Some secret\<rparr>)
           else api\<lparr>api_channel_password := chan_password\<rparr>))"

definition wait_event ::
  "pylib \<Rightarrow> string option \<Rightarrow> private_key \<Rightarrow> json \<Rightarrow> string option \<Rightarrow> api_state \<Rightarrow> json
     \<Rightarrow> api_state option" where
  "wait_event lib agent priv conn_time expected_request_id api ev =
     (case ev of
        JObj d \<Rightarrow>
          (let etype = dict_get d ''type'';
               eto = dict_get d ''to'';
               edate = (if dict_get d ''date'' = JNull then JNum 0 else dict_get d ''date'')
           in if etype = JStr ''password-reply''
              then (if eto = json_of_str agent
                    then (if (if conn_time = JNull then False
                              else (case py_le edate conn_time of None \<Rightarrow> True | Some b \<Rightarrow> b))
                          then None
                          else if \<not> truthy (dict_get d ''content'') then None
                          else (case wait_cipher lib (dict_get d ''content'') expected_request_id of
                                  None \<Rightarrow> None
                                | Some cipher_b64 \<Rightarrow>
                                    (if \<not> truthy cipher_b64 then None
                                     else (case MySecurity_rsa_decrypt lib priv cipher_b64 of
                                             None \<Rightarrow> None
                                           | Some dec \<Rightarrow> Some (wait_apply lib dec api)))))
                    else None)
              else None)
      | _ \<Rightarrow> None)"

text \<open>
  \<^verbatim>\<open>wait_for_password_reply\<close> over the results its \<^verbatim>\<open>receive\<close> callback returns, one
  per polling round until the deadline: the API object as left, and the result. A round
  with no reply ends in a sleep.
\<close>

fun wait_events ::
  "pylib \<Rightarrow> string option \<Rightarrow> private_key \<Rightarrow> json \<Rightarrow> string option \<Rightarrow> api_state \<Rightarrow> json list
     \<Rightarrow> api_state option" where
  "wait_events lib agent priv conn_time expected api [] = None"
| "wait_events lib agent priv conn_time expected api (ev # evs) =
     (case wait_event lib agent priv conn_time expected api ev of
        Some api' \<Rightarrow> Some api'
      | None \<Rightarrow> wait_events lib agent priv conn_time expected api evs)"

fun wait_for_password_reply ::
  "pylib \<Rightarrow> string option \<Rightarrow> EventMessageResult option list \<Rightarrow> private_key \<Rightarrow> json
     \<Rightarrow> string option \<Rightarrow> agent_state \<Rightarrow> agent_state \<times> bool" where
  "wait_for_password_reply lib agent [] priv conn_time expected s = (s, False)"
| "wait_for_password_reply lib agent (res # rounds) priv conn_time expected s =
     (case (case res of None \<Rightarrow> None
            | Some r \<Rightarrow> wait_events lib agent priv conn_time expected (channel_api s) (events r)) of
        Some api' \<Rightarrow> (s\<lparr>channel_api := api'\<rparr>, True)
      | None \<Rightarrow> wait_for_password_reply lib agent rounds priv conn_time expected (emit Sleep s))"

section \<open>core/agent\_connection.py\<close>

text \<open>
  What the world gives one call of \<^verbatim>\<open>connect\<close>: the session id in the recovery file,
  the key pair \<^verbatim>\<open>rsa_generate\<close> returns (None when it raises), the server's replies, and
  for the password request the second key pair, the UUID and the number of polling rounds
  before the deadline.
\<close>

record connect_env =
  saved_session :: json
  generated_keys :: "(private_key \<times> string) option"
  create_reply :: reply
  connect_reply :: reply
  request_keys :: "(private_key \<times> string) option"
  request_uuid :: string
  request_polls :: nat

datatype error = AlreadyConnected | AttributeError

text \<open>
  \<^verbatim>\<open>request_password\<close>. Its \<^verbatim>\<open>receive\<close> callback hands \<^verbatim>\<open>self.receive\<close> a dictionary
  where a ReceiveConfig is expected; \<^verbatim>\<open>MessagingChannelApi.receive\<close> raises on
  \<^verbatim>\<open>receive_config.globalOffset\<close> inside its try block and returns None, so every
  polling round sees None.
\<close>

definition request_password :: "pylib \<Rightarrow> connect_env \<Rightarrow> agent_state \<Rightarrow> agent_state \<times> bool" where
  "request_password lib env s =
     (if \<not> is_ready s then (s, False)
      else if \<not> truthy (session_id s) then (s, False)
      else if channel_password s \<noteq> JNull then (s, True)
      else
        (case request_keys env of
           None \<Rightarrow> ((emit RsaGenerate s)\<lparr>pending_private_key := None, pending_request_id := None\<rparr>, False)
         | Some (priv_key, pub_pem) \<Rightarrow>
             (let s1 = (emit RsaGenerate s)\<lparr>pending_private_key := Some priv_key,
                                             pending_request_id := Some (request_uuid env)\<rparr>;
                  req_payload = json_dumps lib (JObj [(''requestId'', JStr (request_uuid env)),
                                                      (''publicKeyPem'', JStr pub_pem)]);
                  s2 = api_send_plain (JStr req_payload) (JStr ''*'') (session_id s1) ''password-request'' s1
              in case wait_for_password_reply lib (agent_name s2) (replicate (request_polls env) None)
                        priv_key (connection_time s2) (Some (request_uuid env)) s2 of
                   (s3, success) \<Rightarrow>
                     (let s4 = s3\<lparr>pending_private_key := None, pending_request_id := None\<rparr>
                      in if success
                         then (s4\<lparr>channel_password :=
                                    (if api_channel_password (channel_api s4) \<noteq> JNull
                                     then api_channel_password (channel_api s4)
                                     else channel_password s4),
                                  channel_secret := api_channel_secret (channel_api s4)\<rparr>, True)
                         else (s4, False)))))"

definition default_ReceiveConfig :: ReceiveConfig where
  "default_ReceiveConfig =
     \<lparr> rc_globalOffset = JNum 0, rc_localOffset = JNum 0, rc_limit = JNum 20, rc_pollSource = JStr ''AUTO'' \<rparr>"

text \<open>The two receive configs \<^verbatim>\<open>_connect_internal\<close> computes from the response's state.\<close>

definition receive_configs :: "ChannelState option \<Rightarrow> ReceiveConfig \<times> ReceiveConfig" where
  "receive_configs md =
     (let ogo = (case md of None \<Rightarrow> JNull | Some st \<Rightarrow> originalGlobalOffset st);
          go = (case md of None \<Rightarrow> JNull | Some st \<Rightarrow> globalOffset st);
          lo = (case md of None \<Rightarrow> JNull | Some st \<Rightarrow> localOffset st);
          start_offset = (if ogo \<noteq> JNull then ogo else py_or go (JNum 0))
      in if go = JNull \<and> ogo = JNull
         then (default_ReceiveConfig, default_ReceiveConfig)
         else (default_ReceiveConfig\<lparr>rc_globalOffset := start_offset\<rparr>,
               default_ReceiveConfig\<lparr>rc_globalOffset := py_or go (JNum 0),
                                      rc_localOffset := py_or lo (JNum 0)\<rparr>))"

text \<open>\<^verbatim>\<open>_connect_internal\<close> after the API call returned a response with a session id.\<close>

definition connected ::
  "pylib \<Rightarrow> connect_env \<Rightarrow> string option \<Rightarrow> string option \<Rightarrow> ConnectResponse \<Rightarrow> agent_state \<Rightarrow> agent_state" where
  "connected lib env chan_id chan_name resp s =
     (let s1 = s\<lparr>session_id := cr_sessionId resp, connection_time := cr_date resp,
                 ready_state := True,
                 channel_id := py_or (cr_channelId resp)
                                 (case cr_state resp of None \<Rightarrow> JNull | Some st \<Rightarrow> channelId st),
                 initial_receive_config := Some (fst (receive_configs (cr_state resp))),
                 current_receive_config := Some (snd (receive_configs (cr_state resp)))\<rparr>;
          s2 = (if channel_name s1 \<noteq> JNull \<and> channel_password s1 \<noteq> JNull
                then (case derive_channel_secret_json lib (channel_name s1) (channel_password s1) of
                        None \<Rightarrow> s1\<lparr>channel_secret := None\<rparr>
                      | Some secret \<Rightarrow>
                          s1\<lparr>channel_secret := Some secret,
                             channel_api := (channel_api s1)\<lparr>api_channel_secret := Some secret\<rparr>\<rparr>)
                else s1);
          s3 = (if channel_secret s2 = None \<and> api_channel_secret (channel_api s2) = None
                     \<and> api_channel_password (channel_api s2) = JNull
                then fst (request_password lib env s2) else s2)
      in if truthy (session_id s3)
         then emit (SaveSession (str_or chan_id chan_name) (session_id s3)) s3
         else s3)"

text \<open>
  \<^verbatim>\<open>_connect_internal\<close>. The result is the connection as left and either the exception
  raised or the value returned.
\<close>

definition connect_internal ::
  "pylib \<Rightarrow> connect_env \<Rightarrow> string option \<Rightarrow> string option \<Rightarrow> string option \<Rightarrow> string option
     \<Rightarrow> string option \<Rightarrow> agent_state \<Rightarrow> agent_state \<times> (error + bool)" where
  "connect_internal lib env chan_id chan_name chan_password agent api_key_scope s =
     (if ready_state s \<and> session_id s \<noteq> JNull then (s, Inl AlreadyConnected)
      else if session_id s = JNull \<and> check_last_session s \<and> str_or chan_id chan_name = None
      then (s, Inl AttributeError)
      else
        (let s1 = (if session_id s = JNull \<and> check_last_session s
                   then (emit (LoadSession (str_or chan_id chan_name)) s)\<lparr>session_id := saved_session env\<rparr>
                   else s);
             s2 = s1\<lparr>agent_name := agent, channel_name := json_of_str chan_name,
                     channel_password := json_of_str chan_password\<rparr>;
             s3 = (emit RsaGenerate s2)\<lparr>key_pair := generated_keys env\<rparr>
         in case (if chan_id \<noteq> None
                  then api_connect lib (create_reply env) (connect_reply env) None None (agent_name s3)
                         (session_id s3) chan_id (enable_webrtc_relay s3) api_key_scope s3
                  else api_connect lib (create_reply env) (connect_reply env) chan_name chan_password
                         (agent_name s3) (session_id s3) None (enable_webrtc_relay s3) api_key_scope s3) of
              (s4, resp) \<Rightarrow>
                (if truthy (cr_sessionId resp)
                 then (connected lib env chan_id chan_name resp s4, Inr True)
                 else (s4, Inr False))))"

text \<open>
  The public entry points. \<^verbatim>\<open>connect(config={...})\<close> goes through
  \<^verbatim>\<open>_connect_with_dict\<close>, which stores the two option flags (absent keys as their
  defaults) before it calls \<^verbatim>\<open>_connect_internal\<close>; \<^verbatim>\<open>connect(name, password, agent,
  **kwargs)\<close> stores a flag only when its keyword is given.
\<close>

record connect_config =
  cfg_channelName :: "string option"
  cfg_channelPassword :: "string option"
  cfg_agentName :: "string option"
  cfg_channelId :: "string option"
  cfg_apiKeyScope :: "string option"
  cfg_enableWebrtcRelay :: "bool option"
  cfg_checkLastSession :: "bool option"

definition scope_default :: "string option \<Rightarrow> string option" where
  "scope_default scope = (case scope of None \<Rightarrow> Some ''private'' | Some x \<Rightarrow> Some x)"

definition connect_with_dict ::
  "pylib \<Rightarrow> connect_env \<Rightarrow> connect_config \<Rightarrow> agent_state \<Rightarrow> agent_state \<times> (error + bool)" where
  "connect_with_dict lib env config s =
     connect_internal lib env (cfg_channelId config) (cfg_channelName config)
       (cfg_channelPassword config) (cfg_agentName config) (scope_default (cfg_apiKeyScope config))
       (s\<lparr>enable_webrtc_relay := (case cfg_enableWebrtcRelay config of None \<Rightarrow> False | Some b \<Rightarrow> b),
          check_last_session := (case cfg_checkLastSession config of None \<Rightarrow> True | Some b \<Rightarrow> b)\<rparr>)"

definition connect ::
  "pylib \<Rightarrow> connect_env \<Rightarrow> connect_config \<Rightarrow> agent_state \<Rightarrow> agent_state \<times> (error + bool)" where
  "connect lib env kwargs s =
     connect_internal lib env (cfg_channelId kwargs) (cfg_channelName kwargs)
       (cfg_channelPassword kwargs) (cfg_agentName kwargs) (scope_default (cfg_apiKeyScope kwargs))
       (s\<lparr>enable_webrtc_relay := (case cfg_enableWebrtcRelay kwargs of
                                     None \<Rightarrow> enable_webrtc_relay s | Some b \<Rightarrow> b),
          check_last_session := (case cfg_checkLastSession kwargs of
                                    None \<Rightarrow> check_last_session s | Some b \<Rightarrow> b)\<rparr>)"

definition connect_with_channel_id ::
  "pylib \<Rightarrow> connect_env \<Rightarrow> string option \<Rightarrow> string option \<Rightarrow> string option \<Rightarrow> agent_state
     \<Rightarrow> agent_state \<times> (error + bool)" where
  "connect_with_channel_id lib env chan_id agent maybe_channel_name s =
     connect_internal lib env chan_id maybe_channel_name None agent (Some ''private'') s"

section \<open>receive\<close>

text \<open>
  \<^verbatim>\<open>for item in x\<close>: a list gives its elements, a dictionary its keys, a string its
  characters; on None, a number or a bool the loop raises. A character of a string is a
  byte that is not a UTF-8 continuation byte (\<^verbatim>\<open>10xxxxxx\<close>), with the continuation
  bytes that follow it.
\<close>

definition is_continuation :: "char \<Rightarrow> bool" where
  "is_continuation c = (128 \<le> (of_char c :: nat) \<and> (of_char c :: nat) < 192)"

function utf8_chars :: "string \<Rightarrow> string list" where
  "utf8_chars [] = []"
| "utf8_chars (c # cs) =
     (c # takeWhile is_continuation cs) # utf8_chars (dropWhile is_continuation cs)"
  by pat_completeness auto

termination utf8_chars
  by (relation "measure length") (simp_all add: less_Suc_eq_le length_dropWhile_le)

fun py_iter :: "json \<Rightarrow> json list option" where
  "py_iter (JArr xs) = Some xs"
| "py_iter (JObj d) = Some (map (\<lambda>kv. JStr (fst kv)) d)"
| "py_iter (JStr s) = Some (map JStr (utf8_chars s))"
| "py_iter _ = None"

text \<open>
  \<^verbatim>\<open>MessagingChannelApi._verify_and_decrypt_message\<close>, called on the dictionaries of a
  reply. \<^verbatim>\<open>decrypt_and_verify\<close> returns None instead of raising, and the two
  assignments follow it unguarded.
\<close>

definition api_verify_and_decrypt_message :: "pylib \<Rightarrow> string option \<Rightarrow> json \<Rightarrow> json" where
  "api_verify_and_decrypt_message lib secret item =
     (case item of
        JObj d \<Rightarrow>
          (if truthy (dict_get d ''encrypted'')
           then (let plain = decrypt_and_verify lib (dict_get_default d ''content'' (JStr [])) secret
                 in JObj (dict_set (dict_set d ''content'' (json_of_str plain)) ''encrypted'' (JBool False)))
           else item)
      | _ \<Rightarrow> item)"

text \<open>\<^verbatim>\<open>AgentConnection._verify_and_decrypt_message\<close>.\<close>

definition verify_and_decrypt_message :: "pylib \<Rightarrow> string option \<Rightarrow> json \<Rightarrow> json" where
  "verify_and_decrypt_message lib secret ev =
     (case ev of
        JObj d \<Rightarrow>
          (if truthy (dict_get d ''encrypted'')
           then (case decrypt_and_verify lib (dict_get_default d ''content'' (JStr [])) secret of
                   None \<Rightarrow> ev
                 | Some plain \<Rightarrow>
                     JObj (dict_set (dict_set d ''content'' (JStr plain)) ''encrypted'' (JBool False)))
           else ev)
      | _ \<Rightarrow> ev)"

definition empty_result :: EventMessageResult where
  "empty_result = \<lparr> events = [], nextGlobalOffset = JNull, nextLocalOffset = JNull, ephemeralEvents = None \<rparr>"

text \<open>What \<^verbatim>\<open>MessagingChannelApi.receive\<close> makes of the reply to the POST to /pull.\<close>

definition pull_reply_result :: "pylib \<Rightarrow> string option \<Rightarrow> reply \<Rightarrow> EventMessageResult option" where
  "pull_reply_result lib secret r =
     (case r of
        Timeout \<Rightarrow> Some empty_result
      | Failed \<Rightarrow> None
      | Body txt obj \<Rightarrow>
          (case obj of
             JObj d \<Rightarrow>
               (if status_success obj
                then (case dict_get_default d ''data'' (JObj []) of
                        JObj data \<Rightarrow>
                          (case py_iter (dict_get_default data ''events'' (JArr [])) of
                             None \<Rightarrow> None
                           | Some cipher_array \<Rightarrow>
                               (let data_array = map (api_verify_and_decrypt_message lib secret) cipher_array;
                                    ephemeral_array = dict_get_default data ''ephemeralEvents'' (JArr [])
                                in if truthy ephemeral_array
                                   then (case py_iter ephemeral_array of
                                           None \<Rightarrow> None
                                         | Some es \<Rightarrow>
                                             Some \<lparr> events = data_array,
                                                    nextGlobalOffset = dict_get data ''nextGlobalOffset'',
                                                    nextLocalOffset = dict_get data ''nextLocalOffset'',
                                                    ephemeralEvents =
                                                      (if es = [] then None
                                                       else Some (map (api_verify_and_decrypt_message lib secret) es)) \<rparr>)
                                   else Some \<lparr> events = data_array,
                                               nextGlobalOffset = dict_get data ''nextGlobalOffset'',
                                               nextLocalOffset = dict_get data ''nextLocalOffset'',
                                               ephemeralEvents = None \<rparr>))
                      | _ \<Rightarrow> Some empty_result)
                else None)
           | JArr xs \<Rightarrow> Some (empty_result\<lparr>events := xs\<rparr>)
           | _ \<Rightarrow> None))"

definition api_receive ::
  "pylib \<Rightarrow> reply \<Rightarrow> json \<Rightarrow> ReceiveConfig \<Rightarrow> agent_state \<Rightarrow> agent_state \<times> EventMessageResult option" where
  "api_receive lib r session receive_config s =
     (emit (HttpPost ''/pull''
              [(''sessionId'', session),
               (''receiveConfig'',
                  JObj [(''globalOffset'', rc_globalOffset receive_config),
                        (''localOffset'', rc_localOffset receive_config),
                        (''limit'', rc_limit receive_config),
                        (''pollSource'', py_or (rc_pollSource receive_config)
                                           (JStr (api_default_poll_source (channel_api s))))])]) s,
      pull_reply_result lib (api_channel_secret (channel_api s)) r)"

section \<open>The password exchange on the receive path\<close>

text \<open>\<^verbatim>\<open>_handle_password_request\<close>, the responder.\<close>

definition handle_password_request :: "pylib \<Rightarrow> pydict \<Rightarrow> agent_state \<Rightarrow> agent_state" where
  "handle_password_request lib ev s =
     (let requester_agent = dict_get ev ''from'';
          requester_pub = (case dict_get ev ''content'' of
                             JStr raw \<Rightarrow> (case json_loads lib raw of
                                           Some (JObj parsed) \<Rightarrow> dict_get parsed ''publicKeyPem''
                                         | _ \<Rightarrow> JNull)
                           | _ \<Rightarrow> JNull);
          ch_id = (case api_channel_state (channel_api s) of None \<Rightarrow> JNull | Some md \<Rightarrow> channelId md);
          allowed = (case password_request_handler s of
                       None \<Rightarrow> True
                     | Some h \<Rightarrow> (case h ch_id requester_agent requester_pub of None \<Rightarrow> True | Some b \<Rightarrow> b))
      in if allowed \<and> truthy (channel_password s) \<and> truthy (channel_name s) \<and> truthy requester_pub
         then (case MySecurity_rsa_encrypt lib requester_pub
                      (json_dumps lib (JObj [(''channelName'', channel_name s),
                                             (''channelPassword'', channel_password s)])) of
                 None \<Rightarrow> s
               | Some cipher_b64 \<Rightarrow>
                   api_send_plain (JStr cipher_b64) requester_agent (session_id s) ''password-reply'' s)
         else s)"

text \<open>
  \<^verbatim>\<open>_handle_password_reply\<close>, the requester's continuation on the receive path. It reads
  \<^verbatim>\<open>cipher\<close> (or \<^verbatim>\<open>content\<close>) from the JSON wrapper and nothing else of it.
\<close>

definition reply_cipher :: "pylib \<Rightarrow> json \<Rightarrow> json" where
  "reply_cipher lib content =
     (case content of
        JStr c \<Rightarrow>
          (case json_loads lib c of
             None \<Rightarrow> content
           | Some (JObj parsed) \<Rightarrow> py_or (dict_get parsed ''cipher'') (dict_get parsed ''content'')
           | Some _ \<Rightarrow> JNull)
      | _ \<Rightarrow> content)"

definition install_password :: "pylib \<Rightarrow> string \<Rightarrow> agent_state \<Rightarrow> agent_state" where
  "install_password lib dec s =
     (case reply_credentials lib dec of
        (chan_name, chan_password) \<Rightarrow>
          (let s1 = (if truthy chan_name \<and> \<not> truthy (channel_name s)
                     then s\<lparr>channel_name := chan_name\<rparr> else s);
               s2 = s1\<lparr>channel_password := chan_password\<rparr>
           in if truthy (channel_name s2) \<and> truthy (channel_password s2)
              then (case derive_channel_secret_json lib (channel_name s2) (channel_password s2) of
                      None \<Rightarrow> s2
                    | Some secret \<Rightarrow>
                        s2\<lparr>channel_secret := Some secret,
                           channel_api := (channel_api s2)\<lparr>api_channel_secret := Some secret\<rparr>\<rparr>)
              else s2\<lparr>channel_api := (channel_api s2)\<lparr>api_channel_password := chan_password\<rparr>\<rparr>))"

definition handle_password_reply :: "pylib \<Rightarrow> pydict \<Rightarrow> agent_state \<Rightarrow> agent_state" where
  "handle_password_reply lib ev s =
     (let content = dict_get ev ''content''
      in if \<not> truthy content then s
         else (case pending_private_key s of
                 None \<Rightarrow> s
               | Some priv \<Rightarrow>
                   (let cipher_b64 = reply_cipher lib content
                    in if \<not> truthy cipher_b64 then s
                       else (case MySecurity_rsa_decrypt lib priv cipher_b64 of
                               None \<Rightarrow> s
                             | Some dec \<Rightarrow> install_password lib dec s))))"

text \<open>
  \<^verbatim>\<open>_check_auto_events\<close>: an event of a reserved type is handled when the connection
  has no connection time or the event's date is later; a comparison that raises skips
  the event.
\<close>

definition newer_than_connection :: "json \<Rightarrow> agent_state \<Rightarrow> bool" where
  "newer_than_connection edate s =
     (if connection_time s = JNull then True
      else if edate = JNull then False
      else (case py_gt edate (connection_time s) of None \<Rightarrow> False | Some b \<Rightarrow> b))"

definition auto_event :: "pylib \<Rightarrow> json \<Rightarrow> agent_state \<Rightarrow> agent_state" where
  "auto_event lib ev s =
     (case ev of
        JObj d \<Rightarrow>
          (if dict_get d ''type'' = JStr ''password-request''
           then (if newer_than_connection (dict_get d ''date'') s
                 then handle_password_request lib d s else s)
           else if dict_get d ''type'' = JStr ''password-reply''
           then (if newer_than_connection (dict_get d ''date'') s
                 then (if dict_get d ''to'' = json_of_str (agent_name s)
                       then handle_password_reply lib d s else s)
                 else s)
           else s)
      | _ \<Rightarrow> s)"

fun check_auto_events :: "pylib \<Rightarrow> json list \<Rightarrow> agent_state \<Rightarrow> agent_state" where
  "check_auto_events lib [] s = s"
| "check_auto_events lib (ev # evs) s = check_auto_events lib evs (auto_event lib ev s)"

text \<open>\<^verbatim>\<open>AgentConnection.receive\<close>: the events are decrypted in place, then scanned.\<close>

definition receive ::
  "pylib \<Rightarrow> reply \<Rightarrow> ReceiveConfig \<Rightarrow> agent_state \<Rightarrow> agent_state \<times> EventMessageResult option" where
  "receive lib r offset_range s =
     (if \<not> is_ready s then (s, None)
      else (case api_receive lib r (session_id s) offset_range s of
              (s1, None) \<Rightarrow> (s1, None)
            | (s1, Some resp) \<Rightarrow>
                (let evs = map (verify_and_decrypt_message lib (channel_secret s1)) (events resp)
                 in (check_auto_events lib evs s1, Some (resp\<lparr>events := evs\<rparr>)))))"

section \<open>The receive pump\<close>

text \<open>
  One round of the loop of \<^verbatim>\<open>_run_receive\<close> (entered when \<^verbatim>\<open>is_ready()\<close> holds) on
  the server's reply to the pull; the handler's batches and the sleeps go to the log.
\<close>

definition start_offsets :: "agent_state \<Rightarrow> ReceiveConfig" where
  "start_offsets s =
     (case initial_receive_config s of
        None \<Rightarrow> default_ReceiveConfig
      | Some c \<Rightarrow> \<lparr> rc_globalOffset = py_or (rc_globalOffset c) (JNum 0),
                   rc_localOffset = py_or (rc_localOffset c) (JNum 0),
                   rc_limit = py_or (rc_limit c) (JNum 20), rc_pollSource = JStr ''AUTO'' \<rparr>)"

definition promote :: "EventMessageResult \<Rightarrow> ReceiveConfig \<Rightarrow> ReceiveConfig" where
  "promote resp offset_range =
     offset_range\<lparr>rc_globalOffset := (if nextGlobalOffset resp \<noteq> JNull then nextGlobalOffset resp
                                       else rc_globalOffset offset_range),
                  rc_localOffset := (if nextLocalOffset resp \<noteq> JNull then nextLocalOffset resp
                                      else rc_localOffset offset_range)\<rparr>"

definition pump_round ::
  "pylib \<Rightarrow> reply \<Rightarrow> agent_state \<times> ReceiveConfig \<Rightarrow> agent_state \<times> ReceiveConfig" where
  "pump_round lib r st =
     (case st of
        (s, offset_range) \<Rightarrow>
          (case receive lib r offset_range s of
             (s1, None) \<Rightarrow> (emit Sleep s1, offset_range)
           | (s1, Some resp) \<Rightarrow>
               (let ephemeral_events = (case ephemeralEvents resp of None \<Rightarrow> [] | Some es \<Rightarrow> es);
                    s2 = (if ephemeral_events \<noteq> [] then emit (Deliver ephemeral_events) s1 else s1)
                in if events resp \<noteq> []
                   then (emit Sleep (emit (Deliver (events resp)) s2), promote resp offset_range)
                   else (s2, offset_range))))"

text \<open>The loop over the replies the server gives to the successive pulls.\<close>

fun run_rounds ::
  "pylib \<Rightarrow> reply list \<Rightarrow> agent_state \<times> ReceiveConfig \<Rightarrow> agent_state \<times> ReceiveConfig" where
  "run_rounds lib [] st = st"
| "run_rounds lib (r # rs) st =
     (if is_ready (fst st) then run_rounds lib rs (pump_round lib r st) else st)"

definition run_receive :: "pylib \<Rightarrow> reply list \<Rightarrow> agent_state \<Rightarrow> agent_state \<times> ReceiveConfig" where
  "run_receive lib rs s = run_rounds lib rs (s, start_offsets s)"

section \<open>Active agents and the host\<close>

text \<open>\<^verbatim>\<open>MessagingChannelApi.get_active_agents\<close> on the reply to /list-agents.\<close>

fun agent_infos :: "json list \<Rightarrow> AgentInfo list" where
  "agent_infos [] = []"
| "agent_infos (JObj item # rest) =
     \<lparr> agentName = dict_get_default item ''agentName'' (JStr []), date = dict_get item ''date'',
       meta = Some item \<rparr> # agent_infos rest"
| "agent_infos (_ # rest) = agent_infos rest"

definition list_agents_result :: "reply \<Rightarrow> AgentInfo list option" where
  "list_agents_result r =
     (case r of
        Body txt obj \<Rightarrow>
          (case obj of
             JObj d \<Rightarrow>
               (if status_success obj
                then (case py_iter (dict_get_default d ''data'' (JArr [])) of
                        None \<Rightarrow> None
                      | Some data \<Rightarrow> Some (agent_infos data))
                else Some [])
           | _ \<Rightarrow> Some [])
      | _ \<Rightarrow> None)"

definition get_active_agents :: "reply \<Rightarrow> agent_state \<Rightarrow> agent_state \<times> AgentInfo list option" where
  "get_active_agents r s =
     (if \<not> is_ready s then (s, None)
      else (emit (HttpPost ''/list-agents'' [(''sessionId'', session_id s)]) s, list_agents_result r))"

text \<open>
  \<^verbatim>\<open>is_host_agent\<close> reads each agent with \<^verbatim>\<open>getattr(agent, 'connectionTime', None)\<close>
  and \<^verbatim>\<open>getattr(agent, 'name', None)\<close>. An AgentInfo has the attributes agentName,
  date and meta and no other, so both reads give the default None.
\<close>

definition getattr_connectionTime :: "AgentInfo \<Rightarrow> json" where
  "getattr_connectionTime agent = JNull"

definition getattr_name :: "AgentInfo \<Rightarrow> json" where
  "getattr_name agent = JNull"

text \<open>The loop: (earliest_agent, earliest_time) after the agents, None when a comparison raises.\<close>

fun host_scan :: "json \<Rightarrow> AgentInfo list \<Rightarrow> json \<times> json \<Rightarrow> (json \<times> json) option" where
  "host_scan me [] acc = Some acc"
| "host_scan me (agent # rest) (earliest_agent, earliest_time) =
     (let name = py_or (agentName agent) (getattr_name agent);
          conn_time = getattr_connectionTime agent;
          earliest_time1 = (if name = me then conn_time else earliest_time)
      in if conn_time = JNull then host_scan me rest (earliest_agent, earliest_time1)
         else if earliest_time1 = JNull then host_scan me rest (name, conn_time)
         else (case py_lt conn_time earliest_time1 of
                 None \<Rightarrow> None
               | Some True \<Rightarrow> host_scan me rest (name, conn_time)
               | Some False \<Rightarrow> host_scan me rest (earliest_agent, earliest_time1)))"

text \<open>
  After the loop the method logs \<^verbatim>\<open>', '.join(agent_names)\<close>, outside any
  \<^verbatim>\<open>try\<close>: the names are the agentName of each agent, or \<^verbatim>\<open>'Unknown'\<close> when
  that is falsy, and \<^verbatim>\<open>join\<close> raises when one of them is not a string.
\<close>

definition agent_names :: "AgentInfo list \<Rightarrow> json list" where
  "agent_names agents_info = map (\<lambda>a. py_or (agentName a) (JStr ''Unknown'')) agents_info"

fun py_join :: "string \<Rightarrow> json list \<Rightarrow> string option" where
  "py_join sep [] = Some []"
| "py_join sep [JStr x] = Some x"
| "py_join sep (JStr x # rest) =
     (case py_join sep rest of None \<Rightarrow> None | Some r \<Rightarrow> Some (x @ sep @ r))"
| "py_join sep (_ # rest) = None"

definition is_host_agent :: "reply \<Rightarrow> agent_state \<Rightarrow> agent_state \<times> bool option" where
  "is_host_agent r s =
     (if \<not> is_ready s then (s, Some False)
      else (case get_active_agents r s of
              (s1, None) \<Rightarrow> (s1, Some True)
            | (s1, Some agents_info) \<Rightarrow>
                (if agents_info = [] then (s1, Some True)
                 else (case host_scan (json_of_str (agent_name s1)) agents_info
                              (json_of_str (agent_name s1), JNull) of
                         None \<Rightarrow> (s1, None)
                       | Some (earliest_agent, earliest_time) \<Rightarrow>
                           (case py_join '', '' (agent_names agents_info) of
                              None \<Rightarrow> (s1, None)
                            | Some names \<Rightarrow>
                                (s1, Some (earliest_agent = json_of_str (agent_name s1))))))))"

section \<open>Keys up to trailing NUL bytes\<close>

text \<open>
  A key without the NUL bytes at its end. Both uses \<^verbatim>\<open>MySecurity\<close> makes of a key pad
  it with NUL bytes (\<open>zero_pad\<close> to the 16 bytes of the AES key, HMAC to the 64 bytes of
  its block), so this is what they can tell of a key of at most 64 bytes.
\<close>

definition rstrip_nul :: "string \<Rightarrow> string" where
  "rstrip_nul k = rev (dropWhile (\<lambda>c. c = CHR 0x00) (rev k))"

section \<open>The channel secret as the specification words it\<close>

text \<open>
  The specification's \<^verbatim>\<open>deriveChannelSecret\<close>: PBKDF2-HMAC-SHA256 over the concatenation
  of channel name and password, with the salt \<^verbatim>\<open>messaging-platform\<close>, 100,000 iterations
  and 32 bytes of output, encoded base64url without padding (RFC 4648, section 5: the
  alphabet with \<^verbatim>\<open>-\<close> and \<^verbatim>\<open>_\<close>, no \<^verbatim>\<open>=\<close> written), prefixed \<^verbatim>\<open>channel_\<close>.
\<close>

definition b64url_alphabet :: string where
  "b64url_alphabet = ''ABCDEFGHIJKLMNOPQRSTUVWXYZabcdefghijklmnopqrstuvwxyz0123456789-_''"

definition b64url_char :: "nat \<Rightarrow> char" where
  "b64url_char n = b64url_alphabet ! (n mod 64)"

fun base64url_nopad :: "string \<Rightarrow> string" where
  "base64url_nopad (a # b # c # rest) =
     [b64url_char (of_char a div 4),
      b64url_char ((of_char a mod 4) * 16 + of_char b div 16),
      b64url_char ((of_char b mod 16) * 4 + of_char c div 64),
      b64url_char (of_char c mod 64)] @ base64url_nopad rest"
| "base64url_nopad [a, b] =
     [b64url_char (of_char a div 4),
      b64url_char ((of_char a mod 4) * 16 + of_char b div 16),
      b64url_char ((of_char b mod 16) * 4)]"
| "base64url_nopad [a] =
     [b64url_char (of_char a div 4), b64url_char ((of_char a mod 4) * 16)]"
| "base64url_nopad [] = []"

definition spec_deriveChannelSecret :: "pylib \<Rightarrow> string \<Rightarrow> string \<Rightarrow> string" where
  "spec_deriveChannelSecret lib name password =
     ''channel_'' @ base64url_nopad
        (pbkdf2_hmac_sha256 lib (name @ password) ''messaging-platform'' 100000 32)"

section \<open>A stand-in library\<close>

text \<open>
  To run the definitions on concrete inputs: a library with the interfaces of the real
  one, made of a strict base64 decoder, a writer and a reader for flat JSON objects of
  strings, and toy functions in the place of SHA-256, AES, PBKDF2 and RSA. It is used
  where a theorem about every library is applied to one.
\<close>

definition b64_value :: "char \<Rightarrow> nat" where
  "b64_value c = length (takeWhile (\<lambda>x. x \<noteq> c) b64_alphabet)"

fun b64decode_strict :: "string \<Rightarrow> string option" where
  "b64decode_strict (w # x # y # z # rest) =
     (if rest = [] \<and> z = CHR ''=''
      then (if y = CHR ''=''
            then Some [char_of (b64_value w * 4 + b64_value x div 16)]
            else Some [char_of (b64_value w * 4 + b64_value x div 16),
                       char_of ((b64_value x mod 16) * 16 + b64_value y div 4)])
      else (case b64decode_strict rest of
              None \<Rightarrow> None
            | Some bs \<Rightarrow>
                Some (char_of (b64_value w * 4 + b64_value x div 16)
                      # char_of ((b64_value x mod 16) * 16 + b64_value y div 4)
                      # char_of ((b64_value y mod 4) * 64 + b64_value z) # bs)))"
| "b64decode_strict [] = Some []"
| "b64decode_strict _ = None"

definition dq :: char where
  "dq = CHR 0x22"

fun flat_member :: "string \<times> json \<Rightarrow> string" where
  "flat_member (k, JStr v) = [dq] @ k @ [dq] @ '':'' @ [dq] @ v @ [dq]"
| "flat_member (k, _) = [dq] @ k @ [dq] @ '':null''"

fun flat_members :: "(string \<times> json) list \<Rightarrow> string" where
  "flat_members [] = []"
| "flat_members [m] = flat_member m"
| "flat_members (m # ms) = flat_member m @ '','' @ flat_members ms"

fun flat_dumps :: "json \<Rightarrow> string" where
  "flat_dumps (JObj d) = ''{'' @ flat_members d @ ''}''"
| "flat_dumps _ = ''null''"

text \<open>The reader collects the quoted strings of the text and pairs them up.\<close>

fun quoted :: "string \<Rightarrow> bool \<Rightarrow> string \<Rightarrow> string list" where
  "quoted [] inside cur = []"
| "quoted (c # cs) inside cur =
     (if c = dq then (if inside then cur # quoted cs False [] else quoted cs True [])
      else if inside then quoted cs True (cur @ [c])
      else quoted cs False cur)"

fun pair_up :: "string list \<Rightarrow> (string \<times> json) list" where
  "pair_up (k # v # rest) = (k, JStr v) # pair_up rest"
| "pair_up _ = []"

definition flat_loads :: "string \<Rightarrow> json option" where
  "flat_loads s = (case s of
                     c # cs \<Rightarrow> if c = CHR ''{'' then Some (JObj (pair_up (quoted s False []))) else None
                   | [] \<Rightarrow> None)"

definition demo_lib :: pylib where
  "demo_lib =
     \<lparr> json_loads = flat_loads,
       json_dumps = flat_dumps,
       b64decode = b64decode_strict,
       utf8_valid = (\<lambda>bs. True),
       sha256 = (\<lambda>bs. [char_of (foldl (\<lambda>h c. (h * 31 + of_char c) mod 251) 7 bs :: nat),
                       char_of (foldl (\<lambda>h c. (h * 17 + of_char c) mod 241) 3 bs :: nat)]),
       aes_encrypt_block = (\<lambda>key blk. map (\<lambda>(x, y). char_of (of_char x + 2 * of_char y + 1 :: nat))
                                            (zip blk key)),
       pbkdf2_hmac_sha256 = (\<lambda>password salt iterations n. take n (password @ salt)),
       rsa_oaep_decrypt = (\<lambda>priv ct. if priv = 7 then Some (rev ct) else None),
       rsa_oaep_encrypt = (\<lambda>pub plain. Some (rev plain)) \<rparr>"

text \<open>The same library with a one-to-one function in the place of SHA-256.\<close>

definition demo_lib_injective :: pylib where
  "demo_lib_injective = demo_lib\<lparr>sha256 := rev\<rparr>"

section \<open>Properties\<close>

subsection \<open>disconnect\<close>

lemma api_disconnect_True:
  assumes "api_disconnect r sid s = (s1, True)"
  shows "\<exists>txt obj. r = Body txt obj \<and> status_success obj
           \<and> s1 = (emit (HttpPost ''/disconnect'' [(''sessionId'', sid)])
                     (emit UdpClose (s\<lparr>channel_api := (channel_api s)\<lparr>udp_closed := True\<rparr>\<rparr>)))
                  \<lparr>channel_api := (channel_api s)\<lparr>udp_closed := True, api_ready_state := False,
                                                    api_session_id := JNull\<rparr>\<rparr>"
  using assms by (cases r) (auto simp: api_disconnect_def emit_def Let_def)

text \<open>
  What \<^verbatim>\<open>disconnect()\<close> does when it returns true: the session id is null, the ready
  flag is off, the pending RSA private key, the pending request id and the key pair are
  null, and the UDP socket has been closed (the API object has dropped its session as
  well). No assignment touches the channel secret, on either object.
\<close>

lemma disconnect_True_state:
  assumes "disconnect r s = (s', True)"
  shows "session_id s' = JNull \<and> \<not> ready_state s' \<and> \<not> is_ready s'
       \<and> pending_private_key s' = None \<and> pending_request_id s' = None \<and> key_pair s' = None
       \<and> udp_closed (channel_api s') \<and> UdpClose \<in> set (log s')
       \<and> api_session_id (channel_api s') = JNull \<and> \<not> api_ready_state (channel_api s')
       \<and> channel_secret s' = channel_secret s
       \<and> api_channel_secret (channel_api s') = api_channel_secret (channel_api s)"
proof -
  from assms have ready: "is_ready s"
    by (auto simp: disconnect_def split: if_splits)
  from assms ready obtain s1 where api: "api_disconnect r (session_id s) s = (s1, True)"
    and s': "s' = s1\<lparr>session_id := JNull, ready_state := False, pending_private_key := None,
                      pending_request_id := None, key_pair := None\<rparr>"
    by (auto simp: disconnect_def split: if_splits prod.splits)
  from api_disconnect_True [OF api] show ?thesis
    by (auto simp: s' emit_def is_ready_def)
qed

text \<open>The requests of a password request that nobody answers.\<close>

lemma posted_paths_append:
  "posted_paths (xs @ ys) = posted_paths xs @ posted_paths ys"
  by (induction xs rule: posted_paths.induct) simp_all

lemma wait_for_password_reply_no_reply:
  "wait_for_password_reply lib agent (replicate n None) priv conn_time expected s
     = ((emit Sleep ^^ n) s, False)"
  by (induction n arbitrary: s) (simp_all add: funpow_swap1)

lemma posted_paths_sleeps:
  "posted_paths (log ((emit Sleep ^^ n) s)) = posted_paths (log s)"
  by (induction n) (simp_all add: emit_def posted_paths_append)

lemma fields_sleeps:
  "channel_secret ((emit Sleep ^^ n) s) = channel_secret s"
  "channel_api ((emit Sleep ^^ n) s) = channel_api s"
  "session_id ((emit Sleep ^^ n) s) = session_id s"
  by (induction n) (simp_all add: emit_def)

text \<open>
  C1 at a failing input. A connection is READY on channel C1 and holds the secret
  \<^verbatim>\<open>channel_OLD\<close>, as does its API object. \<^verbatim>\<open>disconnect()\<close> returns true, and the
  channel secret is still \<^verbatim>\<open>channel_OLD\<close> on both objects, where the claim has it
  null. The block that clears the state is commented
  \<^verbatim>\<open>to avoid keeping sensitive key material alive\<close>, and \<^verbatim>\<open>_connect_internal\<close> reads a channel secret that is not None
  as the secret of the channel it has just joined: the same connection, joining channel
  C2 by its id, is READY on C2 with the secret of C1 on both objects and has posted no
  password request, where a new connection joining C2 posts one.
\<close>

theorem disconnect_leaves_channel_secret:
  "(let s0 = agent_init\<lparr>ready_state := True, session_id := JStr ''S1'',
               channel_id := JStr ''C1'', channel_secret := Some ''channel_OLD'',
               channel_api := api_init\<lparr>api_channel_secret := Some ''channel_OLD'',
                                        api_ready_state := True, api_session_id := JStr ''S1''\<rparr>\<rparr>;
        s1 = fst (disconnect (Body ''{}'' (JObj [(''status'', JStr ''success'')])) s0);
        env' = env\<lparr>connect_reply := Body body (JObj [(''status'', JStr ''success''),
                       (''data'', JObj [(''sessionId'', JStr ''S2''), (''date'', JNum 100),
                          (''state'', JObj [(''channelId'', JStr ''C2'')])])]),
                    request_keys := Some (7, ''PEM'')\<rparr>;
        s2 = fst (connect_with_channel_id lib env' (Some ''C2'') (Some ''a1'') None s1);
        s3 = fst (connect_with_channel_id lib env' (Some ''C2'') (Some ''a1'') None agent_init)
    in snd (disconnect (Body ''{}'' (JObj [(''status'', JStr ''success'')])) s0) = True
     \<and> channel_secret s1 = Some ''channel_OLD''
     \<and> api_channel_secret (channel_api s1) = Some ''channel_OLD''
     \<and> snd (connect_with_channel_id lib env' (Some ''C2'') (Some ''a1'') None s1) = Inr True
     \<and> is_ready s2 \<and> channel_id s2 = JStr ''C2''
     \<and> channel_secret s2 = Some ''channel_OLD''
     \<and> api_channel_secret (channel_api s2) = Some ''channel_OLD''
     \<and> posted_paths (log s2) = [''/disconnect'', ''/connect'']
     \<and> posted_paths (log s3) = [''/connect'', ''/push''])"
  by (simp add: disconnect_def api_disconnect_def is_ready_def agent_init_def api_init_def
        emit_def dict_get_def Let_def connect_with_channel_id_def connect_internal_def
        api_connect_def connect_reply_result_def str_or_def dict_get_default_def
        state_dict_def py_or_def channel_state_of_def api_set_connected_def scope_default_def
        connected_def default_ReceiveConfig_def receive_configs_def request_password_def
        wait_for_password_reply_no_reply posted_paths_append posted_paths_sleeps fields_sleeps
        api_send_plain_def
        split: prod.splits)

subsection \<open>connect on a connection that is READY\<close>

lemma connect_internal_ready:
  assumes "ready_state s" and "session_id s \<noteq> JNull"
  shows "connect_internal lib env chan_id chan_name chan_password agent scope s = (s, Inl AlreadyConnected)"
  using assms by (simp add: connect_internal_def)

text \<open>
  C9, as the code has it. On a connection that is READY, \<^verbatim>\<open>_connect_internal\<close> raises
  the "already connected" error at its first statement and leaves the connection as it
  was: no key pair is generated, the recovery file is not read, nothing is posted (the
  log of effects is the same). So does \<^verbatim>\<open>connect_with_channel_id\<close>. A call through
  \<^verbatim>\<open>connect(config=...)\<close> or \<^verbatim>\<open>connect(..., enableWebrtcRelay=, checkLastSession=)\<close>
  raises the same error with the same log, but has stored the two option flags of the call
  before the guard ran; nothing else of the connection changes.
\<close>

theorem connect_while_ready_rejected:
  assumes "ready_state s" and "session_id s \<noteq> JNull"
  shows "connect_internal lib env chan_id chan_name chan_password agent scope s = (s, Inl AlreadyConnected)
       \<and> connect_with_channel_id lib env chan_id agent chan_name s = (s, Inl AlreadyConnected)
       \<and> connect_with_dict lib env config s =
           (s\<lparr>enable_webrtc_relay := (case cfg_enableWebrtcRelay config of None \<Rightarrow> False | Some b \<Rightarrow> b),
              check_last_session := (case cfg_checkLastSession config of None \<Rightarrow> True | Some b \<Rightarrow> b)\<rparr>,
            Inl AlreadyConnected)
       \<and> connect lib env kwargs s =
           (s\<lparr>enable_webrtc_relay := (case cfg_enableWebrtcRelay kwargs of
                                         None \<Rightarrow> enable_webrtc_relay s | Some b \<Rightarrow> b),
              check_last_session := (case cfg_checkLastSession kwargs of
                                        None \<Rightarrow> check_last_session s | Some b \<Rightarrow> b)\<rparr>,
            Inl AlreadyConnected)
       \<and> log (fst (connect_with_dict lib env config s)) = log s
       \<and> log (fst (connect lib env kwargs s)) = log s"
  using assms
  by (simp add: connect_internal_ready connect_with_channel_id_def connect_with_dict_def connect_def)

theorem connect_while_ready_rejected_witness:
  "\<forall>lib env.
     connect_internal lib env None (Some ''default'') (Some ''default'') (Some ''a1'') (Some ''private'')
        (agent_init\<lparr>ready_state := True, session_id := JStr ''S1''\<rparr>)
       = (agent_init\<lparr>ready_state := True, session_id := JStr ''S1''\<rparr>, Inl AlreadyConnected)
     \<and> log (fst (connect lib env
          \<lparr> cfg_channelName = Some ''default'', cfg_channelPassword = Some ''default'',
            cfg_agentName = Some ''a1'', cfg_channelId = None, cfg_apiKeyScope = None,
            cfg_enableWebrtcRelay = Some True, cfg_checkLastSession = None \<rparr>
          (agent_init\<lparr>ready_state := True, session_id := JStr ''S1''\<rparr>))) = []"
proof (intro allI)
  fix lib :: pylib and env :: connect_env
  have r: "ready_state (agent_init\<lparr>ready_state := True, session_id := JStr ''S1''\<rparr>)"
    and sid: "session_id (agent_init\<lparr>ready_state := True, session_id := JStr ''S1''\<rparr>) \<noteq> JNull"
    by simp_all
  have l: "log (agent_init\<lparr>ready_state := True, session_id := JStr ''S1''\<rparr>) = []"
    by (simp add: agent_init_def)
  from connect_while_ready_rejected [OF r sid, where lib = lib and env = env and chan_id = None
      and chan_name = "Some ''default''" and chan_password = "Some ''default''"
      and agent = "Some ''a1''" and scope = "Some ''private''" and kwargs =
      "\<lparr> cfg_channelName = Some ''default'', cfg_channelPassword = Some ''default'',
            cfg_agentName = Some ''a1'', cfg_channelId = None, cfg_apiKeyScope = None,
            cfg_enableWebrtcRelay = Some True, cfg_checkLastSession = None \<rparr>"] l
  show "connect_internal lib env None (Some ''default'') (Some ''default'') (Some ''a1'') (Some ''private'')
        (agent_init\<lparr>ready_state := True, session_id := JStr ''S1''\<rparr>)
       = (agent_init\<lparr>ready_state := True, session_id := JStr ''S1''\<rparr>, Inl AlreadyConnected)
     \<and> log (fst (connect lib env
          \<lparr> cfg_channelName = Some ''default'', cfg_channelPassword = Some ''default'',
            cfg_agentName = Some ''a1'', cfg_channelId = None, cfg_apiKeyScope = None,
            cfg_enableWebrtcRelay = Some True, cfg_checkLastSession = None \<rparr>
          (agent_init\<lparr>ready_state := True, session_id := JStr ''S1''\<rparr>))) = []"
    by simp
qed

text \<open>
  The claim as stated fails on "all connection state unchanged": a READY connection with
  the relay flag off, called with \<^verbatim>\<open>connect(config={..., 'enableWebrtcRelay': True})\<close>,
  raises with the flag on.
\<close>

theorem connect_while_ready_stores_flags_counterexample:
  "\<forall>lib env.
     snd (connect_with_dict lib env
          \<lparr> cfg_channelName = Some ''default'', cfg_channelPassword = Some ''default'',
            cfg_agentName = Some ''a1'', cfg_channelId = None, cfg_apiKeyScope = None,
            cfg_enableWebrtcRelay = Some True, cfg_checkLastSession = None \<rparr>
          (agent_init\<lparr>ready_state := True, session_id := JStr ''S1''\<rparr>)) = Inl AlreadyConnected
   \<and> enable_webrtc_relay (agent_init\<lparr>ready_state := True, session_id := JStr ''S1''\<rparr>) = False
   \<and> enable_webrtc_relay (fst (connect_with_dict lib env
          \<lparr> cfg_channelName = Some ''default'', cfg_channelPassword = Some ''default'',
            cfg_agentName = Some ''a1'', cfg_channelId = None, cfg_apiKeyScope = None,
            cfg_enableWebrtcRelay = Some True, cfg_checkLastSession = None \<rparr>
          (agent_init\<lparr>ready_state := True, session_id := JStr ''S1''\<rparr>))) = True"
  by (simp add: connect_with_dict_def connect_internal_def agent_init_def)

subsection \<open>The receive configs after connect\<close>

lemma receive_configs_channel_state_of [simp]:
  "receive_configs (Some (channel_state_of md)) = (default_ReceiveConfig, default_ReceiveConfig)"
  by (simp add: receive_configs_def channel_state_of_def)

lemma receive_configs_None [simp]:
  "receive_configs None = (default_ReceiveConfig, default_ReceiveConfig)"
  by (simp add: receive_configs_def)

lemma connect_reply_result_state:
  "cr_state (snd (connect_reply_result r s)) = None
   \<or> (\<exists>md. cr_state (snd (connect_reply_result r s)) = Some (channel_state_of md))"
  by (auto simp: connect_reply_result_def empty_ConnectResponse_def Let_def
           split: reply.splits json.splits if_splits)

lemma api_connect_state:
  "cr_state (snd (api_connect lib cr r cn cp a sid cid relay scope s)) = None
   \<or> (\<exists>md. cr_state (snd (api_connect lib cr r cn cp a sid cid relay scope s)) = Some (channel_state_of md))"
  using connect_reply_result_state
  by (auto simp: api_connect_def Let_def empty_ConnectResponse_def)

lemma api_connect_configs:
  assumes "api_connect lib cr r cn cp a sid cid relay scope s = (s1, resp)"
  shows "receive_configs (cr_state resp) = (default_ReceiveConfig, default_ReceiveConfig)"
  using api_connect_state [of lib cr r cn cp a sid cid relay scope s] assms by auto

lemma wait_for_password_reply_configs:
  "initial_receive_config (fst (wait_for_password_reply lib a rounds p ct e s)) = initial_receive_config s
   \<and> current_receive_config (fst (wait_for_password_reply lib a rounds p ct e s)) = current_receive_config s"
  by (induction rounds arbitrary: s) (auto simp: emit_def split: option.splits)

lemma wait_for_password_reply_configs_eq:
  assumes "wait_for_password_reply lib a rounds p ct e s = (s', b)"
  shows "initial_receive_config s' = initial_receive_config s"
    and "current_receive_config s' = current_receive_config s"
  using wait_for_password_reply_configs [of lib a rounds p ct e s] assms by simp_all

lemma request_password_configs:
  "initial_receive_config (fst (request_password lib env s)) = initial_receive_config s
   \<and> current_receive_config (fst (request_password lib env s)) = current_receive_config s"
  by (auto simp: request_password_def Let_def emit_def api_send_plain_def
           split: option.splits prod.splits
           dest: wait_for_password_reply_configs_eq)

lemma connected_configs:
  "initial_receive_config (connected lib env cid cn resp s) = Some (fst (receive_configs (cr_state resp)))
   \<and> current_receive_config (connected lib env cid cn resp s) = Some (snd (receive_configs (cr_state resp)))"
  by (simp add: connected_def Let_def emit_def request_password_configs split: option.splits)

text \<open>
  Whatever the server sends, a connect that succeeds leaves both receive configs at
  (0, 0, 20): the channel state the API object hands over never carries an offset.
\<close>

lemma connect_internal_configs:
  assumes "connect_internal lib env cid cn cp a scope s = (s', Inr True)"
  shows "initial_receive_config s' = Some default_ReceiveConfig
       \<and> current_receive_config s' = Some default_ReceiveConfig"
  using assms
  by (auto simp: connect_internal_def Let_def connected_configs
           split: if_splits prod.splits dest!: api_connect_configs)

text \<open>
  C3 at the scenario's input. \<^verbatim>\<open>connect("default", "default", "a1")\<close> on a fresh
  connection, against a server whose reply to /connect carries the state with
  globalOffset 42 and localOffset 7, returns True with channel id C1, the channel secret
  derived and the initial receive config (0, 0, 20); the current receive config is
  (0, 0, 20) as well, where the claim has (42, 7, 20).
\<close>

theorem connect_scenario_current_config:
  "(let s' = fst (connect lib
          (env\<lparr>connect_reply := Body body
             (JObj [(''status'', JStr ''success''),
                    (''data'', JObj [(''sessionId'', JStr ''S1''), (''date'', JNum 100),
                       (''state'', JObj [(''channelId'', JStr ''C1''), (''globalOffset'', JNum 42),
                          (''localOffset'', JNum 7), (''originalGlobalOffset'', JNum 0)])])])\<rparr>)
          \<lparr> cfg_channelName = Some ''default'', cfg_channelPassword = Some ''default'',
            cfg_agentName = Some ''a1'', cfg_channelId = None, cfg_apiKeyScope = None,
            cfg_enableWebrtcRelay = None, cfg_checkLastSession = None \<rparr>
          agent_init)
    in channel_id s' = JStr ''C1''
     \<and> channel_secret s' = Some (derive_channel_secret lib ''default'' ''default'')
     \<and> session_id s' = JStr ''S1'' \<and> ready_state s'
     \<and> initial_receive_config s' = Some \<lparr> rc_globalOffset = JNum 0, rc_localOffset = JNum 0,
                                           rc_limit = JNum 20, rc_pollSource = JStr ''AUTO'' \<rparr>
     \<and> current_receive_config s' = Some \<lparr> rc_globalOffset = JNum 0, rc_localOffset = JNum 0,
                                           rc_limit = JNum 20, rc_pollSource = JStr ''AUTO'' \<rparr>)"
  by (simp add: connect_def connect_internal_def agent_init_def api_init_def api_connect_def
        connect_reply_result_def Let_def emit_def str_or_def dict_get_def dict_get_default_def
        state_dict_def py_or_def channel_state_of_def api_set_connected_def scope_default_def
        connected_def default_ReceiveConfig_def receive_configs_def
        split: prod.splits)

subsection \<open>The host\<close>

lemma host_scan_self:
  "host_scan me agents (me, JNull) = Some (me, JNull)"
  by (induction agents) (simp_all add: getattr_connectionTime_def Let_def)

text \<open>
  No agent that is READY is told False: it takes itself for the host, whoever else is
  listed, unless the log line raises (an agent listed with a name that is not a string).
\<close>

lemma is_host_agent_always:
  assumes "is_ready s"
  shows "snd (is_host_agent r s) = Some True \<or> snd (is_host_agent r s) = None"
  using assms
  by (auto simp: is_host_agent_def host_scan_self split: prod.splits option.splits)

lemma py_join_strings:
  "\<exists>t. py_join sep (map JStr xs) = Some t"
proof (induction xs)
  case Nil
  show ?case by simp
next
  case (Cons x xs)
  then obtain t where "py_join sep (map JStr xs) = Some t" by blast
  then show ?case by (cases xs) simp_all
qed

lemma is_host_agent_named:
  assumes "is_ready s" and "agent_names agents_info = map JStr xs"
    and "get_active_agents r s = (s1, Some agents_info)"
  shows "snd (is_host_agent r s) = Some True"
proof -
  obtain t where "py_join '', '' (agent_names agents_info) = Some t"
    using py_join_strings [of "'', ''" xs] assms(2) by auto
  moreover have "agent_name s1 = agent_name s"
    using assms(3) by (auto simp: get_active_agents_def emit_def split: if_splits)
  ultimately show ?thesis
    using assms(1,3) by (simp add: is_host_agent_def host_scan_self)
qed

text \<open>
  C4 at the scenario's input. Three agents are active, with connection times 100, 200
  and 300. The second one, a2, asks \<^verbatim>\<open>is_host_agent()\<close> and is told True, where the
  claim has True for a1 alone.
\<close>

theorem is_host_agent_second_of_three:
  "snd (is_host_agent
          (Body body (JObj [(''status'', JStr ''success''),
             (''data'', JArr [JObj [(''agentName'', JStr ''a1''), (''connectionTime'', JNum 100)],
                              JObj [(''agentName'', JStr ''a2''), (''connectionTime'', JNum 200)],
                              JObj [(''agentName'', JStr ''a3''), (''connectionTime'', JNum 300)]])]))
          (agent_init\<lparr>ready_state := True, session_id := JStr ''S2'', agent_name := Some ''a2''\<rparr>))
     = Some True"
  by (simp add: is_host_agent_def get_active_agents_def is_ready_def agent_init_def
        list_agents_result_def dict_get_def dict_get_default_def emit_def
        getattr_connectionTime_def getattr_name_def py_or_def agent_names_def Let_def)

subsection \<open>The offsets of the receive pump\<close>

text \<open>
  C8, as the code has it. After a pull that returned a response with at least one event
  in \<^verbatim>\<open>events\<close>, the pump's offsets are the response's nextGlobalOffset and
  nextLocalOffset, each kept at its previous value when the response has none. After a
  pull whose response has no event in \<^verbatim>\<open>events\<close> (an empty array, ephemeral events
  only, a timeout), the offsets are what they were.
\<close>

theorem pump_round_offsets:
  assumes "receive lib r offset_range s = (s1, Some resp)"
  shows "(events resp \<noteq> [] \<longrightarrow>
            rc_globalOffset (snd (pump_round lib r (s, offset_range)))
              = (if nextGlobalOffset resp \<noteq> JNull then nextGlobalOffset resp else rc_globalOffset offset_range)
          \<and> rc_localOffset (snd (pump_round lib r (s, offset_range)))
              = (if nextLocalOffset resp \<noteq> JNull then nextLocalOffset resp else rc_localOffset offset_range))
       \<and> (events resp = [] \<longrightarrow> snd (pump_round lib r (s, offset_range)) = offset_range)"
  using assms by (simp add: pump_round_def promote_def Let_def)

theorem pump_round_offsets_witness:
  "\<forall>lib.
     rc_globalOffset (snd (pump_round lib
        (Body [] (JObj [(''status'', JStr ''success''),
           (''data'', JObj [(''events'', JArr [JObj [(''type'', JStr ''chat-text''),
                                                      (''content'', JStr ''hi''),
                                                      (''encrypted'', JBool False)]]),
                            (''nextGlobalOffset'', JNum 50)])]))
        (agent_init\<lparr>ready_state := True, session_id := JStr ''S1''\<rparr>, default_ReceiveConfig)))
       = JNum 50
   \<and> rc_localOffset (snd (pump_round lib
        (Body [] (JObj [(''status'', JStr ''success''),
           (''data'', JObj [(''events'', JArr [JObj [(''type'', JStr ''chat-text''),
                                                      (''content'', JStr ''hi''),
                                                      (''encrypted'', JBool False)]]),
                            (''nextGlobalOffset'', JNum 50)])]))
        (agent_init\<lparr>ready_state := True, session_id := JStr ''S1''\<rparr>, default_ReceiveConfig)))
       = JNum 0"
proof (intro allI)
  fix lib :: pylib
  let ?r = "Body [] (JObj [(''status'', JStr ''success''),
           (''data'', JObj [(''events'', JArr [JObj [(''type'', JStr ''chat-text''),
                                                      (''content'', JStr ''hi''),
                                                      (''encrypted'', JBool False)]]),
                            (''nextGlobalOffset'', JNum 50)])])"
  let ?s = "agent_init\<lparr>ready_state := True, session_id := JStr ''S1''\<rparr>"
  obtain s1 resp where rcv: "receive lib ?r default_ReceiveConfig ?s = (s1, Some resp)"
    and ev: "events resp \<noteq> []" and g: "nextGlobalOffset resp = JNum 50"
    and l: "nextLocalOffset resp = JNull"
    by (simp add: receive_def api_receive_def pull_reply_result_def is_ready_def
          agent_init_def api_init_def dict_get_def dict_get_default_def emit_def Let_def
          api_verify_and_decrypt_message_def verify_and_decrypt_message_def
          default_ReceiveConfig_def py_or_def auto_event_def)
  from pump_round_offsets [OF rcv] ev g l
  show "rc_globalOffset (snd (pump_round lib ?r (?s, default_ReceiveConfig))) = JNum 50
      \<and> rc_localOffset (snd (pump_round lib ?r (?s, default_ReceiveConfig))) = JNum 0"
    by (simp add: default_ReceiveConfig_def)
qed

text \<open>
  The claim as stated fails on a response with an empty events array: the pull succeeds
  and the response carries nextGlobalOffset 50 and nextLocalOffset 9, yet the pump's
  offsets stay at (0, 0).
\<close>

theorem pump_round_empty_events_counterexample:
  "\<forall>lib.
     pull_reply_result lib None
        (Body [] (JObj [(''status'', JStr ''success''),
           (''data'', JObj [(''events'', JArr []), (''nextGlobalOffset'', JNum 50),
                            (''nextLocalOffset'', JNum 9)])]))
       = Some \<lparr> events = [], nextGlobalOffset = JNum 50, nextLocalOffset = JNum 9,
                ephemeralEvents = None \<rparr>
   \<and> snd (pump_round lib
        (Body [] (JObj [(''status'', JStr ''success''),
           (''data'', JObj [(''events'', JArr []), (''nextGlobalOffset'', JNum 50),
                            (''nextLocalOffset'', JNum 9)])]))
        (agent_init\<lparr>ready_state := True, session_id := JStr ''S1''\<rparr>, default_ReceiveConfig))
       = \<lparr> rc_globalOffset = JNum 0, rc_localOffset = JNum 0, rc_limit = JNum 20,
           rc_pollSource = JStr ''AUTO'' \<rparr>"
  by (simp add: pump_round_def receive_def api_receive_def pull_reply_result_def is_ready_def
        agent_init_def api_init_def dict_get_def dict_get_default_def emit_def Let_def
        default_ReceiveConfig_def py_or_def)

subsection \<open>An event that fails decryption\<close>

lemma decrypt_and_verify_no_secret [simp]:
  "decrypt_and_verify lib c None = None"
  by (simp add: decrypt_and_verify_def MySecurity_decrypt_def split: json.splits option.splits)

text \<open>
  The two helpers on an encrypted event whose content fails \<^verbatim>\<open>decrypt_and_verify\<close>:
  the API object's helper, which every pulled dictionary passes first, replaces the
  content by None and clears the flag; the connection's own helper leaves the event alone.
\<close>

lemma api_verify_failed:
  assumes "truthy (dict_get d ''encrypted'')"
    and "decrypt_and_verify lib (dict_get_default d ''content'' (JStr [])) secret = None"
  shows "api_verify_and_decrypt_message lib secret (JObj d)
           = JObj (dict_set (dict_set d ''content'' JNull) ''encrypted'' (JBool False))"
  using assms by (simp add: api_verify_and_decrypt_message_def)

lemma agent_verify_failed:
  assumes "decrypt_and_verify lib (dict_get_default d ''content'' (JStr [])) secret = None"
  shows "verify_and_decrypt_message lib secret (JObj d) = JObj d"
  using assms by (simp add: verify_and_decrypt_message_def)

text \<open>
  C2 at a failing input. A connection that joined without a password holds no channel
  secret; the server returns one event with \<^verbatim>\<open>encrypted = true\<close>. Decryption fails, and
  \<^verbatim>\<open>receive\<close> returns the event with content None and \<^verbatim>\<open>encrypted = false\<close>, where
  the claim has the original content and \<^verbatim>\<open>encrypted = true\<close>.
\<close>

theorem receive_failed_decrypt_overwrites_event:
  "snd (receive lib
          (Body body (JObj [(''status'', JStr ''success''),
             (''data'', JObj [(''events'',
                 JArr [JObj [(''type'', JStr ''chat-text''), (''from'', JStr ''a2''),
                             (''content'', JStr ''not a cipher''), (''encrypted'', JBool True)]])])]))
          default_ReceiveConfig
          (agent_init\<lparr>ready_state := True, session_id := JStr ''S1''\<rparr>))
     = Some \<lparr> events = [JObj [(''type'', JStr ''chat-text''), (''from'', JStr ''a2''),
                              (''content'', JNull), (''encrypted'', JBool False)]],
              nextGlobalOffset = JNull, nextLocalOffset = JNull, ephemeralEvents = None \<rparr>"
  by (simp add: receive_def api_receive_def pull_reply_result_def is_ready_def
        agent_init_def api_init_def dict_get_def dict_get_default_def emit_def Let_def
        api_verify_and_decrypt_message_def verify_and_decrypt_message_def dict_set_def
        default_ReceiveConfig_def py_or_def)

subsection \<open>AES in CTR mode\<close>

lemma xor_char_cancel [simp]: "xor_char (xor_char a b) b = a"
  by (cases a; cases b) auto

lemma length_block16 [simp]: "length (block16 s) = 16"
  by (simp add: block16_def)

lemma length_aes_ecb_block [simp]: "length (aes_ecb_block lib key blk) = 16"
  by (simp add: aes_ecb_block_def)

lemma length_ctr_keystream [simp]: "length (ctr_keystream lib key nonce n) = 16 * n"
  by (induction n) (simp_all add: ctr_keystream_def)

lemma length_aes_ctr [simp]: "length (aes_ctr lib key nonce data) = length data"
  by (simp add: aes_ctr_def)

lemma zip_xor_cancel:
  "length xs \<le> length ks \<Longrightarrow>
   map (\<lambda>(c, k). xor_char c k) (zip (map (\<lambda>(c, k). xor_char c k) (zip xs ks)) ks) = xs"
proof (induction xs arbitrary: ks)
  case Nil
  then show ?case by simp
next
  case (Cons x xs)
  then show ?case by (cases ks) simp_all
qed

lemma aes_ctr_involution: "aes_ctr lib key nonce (aes_ctr lib key nonce data) = data"
proof -
  have "length data \<le> length (ctr_keystream lib key nonce ((length data + 15) div 16))"
    by simp
  then show ?thesis
    unfolding aes_ctr_def by (simp add: zip_xor_cancel)
qed

lemma zero_pad_take:
  assumes "take n a = take n b"
  shows "zero_pad n a = zero_pad n b"
proof -
  have len: "min (length a) n = min (length b) n"
    using arg_cong [OF assms, of length] by simp
  have "(if i < length a then a ! i else CHR 0x00) = (if i < length b then b ! i else CHR 0x00)"
    if "i < n" for i
  proof -
    from len that have "i < length a \<longleftrightarrow> i < length b" by auto
    moreover have "a ! i = b ! i" if "i < length a"
      using nth_take [of i n a] nth_take [of i n b] assms \<open>i < n\<close> by simp
    ultimately show ?thesis by auto
  qed
  then show ?thesis by (simp add: zero_pad_def)
qed

lemma aes_key_take:
  "take 16 k1 = take 16 k2 \<Longrightarrow> aes_key lib k1 = aes_key lib k2"
  by (simp add: aes_key_def zero_pad_take [of 16 k1 k2])

lemma length_nonce_iv [simp]: "length (nonce_iv now rnd) = 16"
  by (simp add: nonce_iv_def Let_def)

lemma AesCtr_roundtrip_same_prefix:
  assumes b64: "\<And>x. b64decode lib (b64encode x) = Some x"
    and utf8: "utf8_valid lib m"
    and keys: "take 16 k1 = take 16 k2"
  shows "AesCtr_decrypt lib (AesCtr_encrypt lib now rnd m k1) k2 = Some m"
  using utf8 aes_key_take [OF keys, of lib]
  by (simp add: AesCtr_decrypt_def AesCtr_encrypt_def Let_def b64 aes_ctr_involution)

subsection \<open>base64\<close>

lemma b64url_alphabet_translate: "b64url_alphabet = map urlsafe_translate b64_alphabet"
  by (simp add: b64url_alphabet_def b64_alphabet_def urlsafe_translate_def)

lemma length_b64_alphabet: "length b64_alphabet = 64"
  by (simp add: b64_alphabet_def)

lemma urlsafe_translate_b64_char: "urlsafe_translate (b64_char n) = b64url_char n"
  by (simp add: b64_char_def b64url_char_def b64url_alphabet_translate length_b64_alphabet)

lemma eq_notin_b64url_alphabet: "CHR ''='' \<notin> set b64url_alphabet"
  by (simp add: b64url_alphabet_def)

lemma b64url_char_not_eq: "b64url_char n \<noteq> CHR ''=''"
proof -
  have "n mod 64 < length b64url_alphabet"
    by (simp add: b64url_alphabet_translate length_b64_alphabet)
  then have "b64url_char n \<in> set b64url_alphabet"
    unfolding b64url_char_def by (rule nth_mem)
  with eq_notin_b64url_alphabet show ?thesis by auto
qed

lemma urlsafe_translate_eq: "urlsafe_translate (CHR ''='') = CHR ''=''"
  by (simp add: urlsafe_translate_def)

lemma rstrip_eq_append:
  "rstrip_eq (xs @ ys) = (if rstrip_eq ys = [] then rstrip_eq xs else xs @ rstrip_eq ys)"
  by (auto simp: rstrip_eq_def dropWhile_append dest: set_dropWhileD)

lemma rstrip_eq_Cons: "c \<noteq> CHR ''='' \<Longrightarrow> rstrip_eq (c # xs) = c # rstrip_eq xs"
  using rstrip_eq_append [of "[c]" xs] 
  by (auto simp: rstrip_eq_def)

lemma rstrip_eq_simps [simp]: "rstrip_eq [] = []" "rstrip_eq [CHR ''=''] = []"
  "rstrip_eq [CHR ''='', CHR ''=''] = []"
  by (simp_all add: rstrip_eq_def)

lemma urlsafe_b64encode_nopad:
  "rstrip_eq (urlsafe_b64encode bs) = base64url_nopad bs"
  by (induction bs rule: b64encode.induct)
     (simp_all add: urlsafe_b64encode_def urlsafe_translate_b64_char urlsafe_translate_eq
        rstrip_eq_Cons b64url_char_not_eq)

lemma of_char_less_256: "(of_char c :: nat) < 256"
proof -
  have "(of_char c :: nat) mod 256 = of_char c" by simp
  moreover have "(of_char c :: nat) mod 256 < 256" by simp
  ultimately show ?thesis by simp
qed

lemma div_mult_add: "(x::nat) < n \<Longrightarrow> (k * n + x) div n = k"
  by simp
lemma mod_mult_add: "(x::nat) < n \<Longrightarrow> (k * n + x) mod n = x"
  by simp

lemma div16_bound: "(b::nat) < 256 \<Longrightarrow> b div 16 < 16" by simp
lemma div64_bound: "(c::nat) < 256 \<Longrightarrow> c div 64 < 4" by simp
lemma div4_bound: "(a::nat) < 256 \<Longrightarrow> a div 4 < 64" by simp

lemma recombine_first: fixes a b :: nat assumes "b < 256"
  shows "a div 4 * 4 + (a mod 4 * 16 + b div 16) div 16 = a"
  using div16_bound [OF assms] by (simp add: div_mult_add)
lemma recombine_second: fixes a b c :: nat assumes "b < 256" "c < 256"
  shows "(a mod 4 * 16 + b div 16) mod 16 * 16 + (b mod 16 * 4 + c div 64) div 4 = b"
  using div16_bound [OF assms(1)] div64_bound [OF assms(2)] by (simp add: div_mult_add mod_mult_add)
lemma recombine_third: fixes b c :: nat assumes "c < 256"
  shows "(b mod 16 * 4 + c div 64) mod 4 * 64 + c mod 64 = c"
  using div64_bound [OF assms] by (simp add: mod_mult_add)
lemma recombine_second_last: fixes a b :: nat assumes "b < 256"
  shows "(a mod 4 * 16 + b div 16) mod 16 * 16 + (b mod 16 * 4) div 4 = b"
  using div16_bound [OF assms] by (simp add: mod_mult_add)
lemma recombine_first_last: fixes a :: nat 
  shows "a div 4 * 4 + (a mod 4 * 16) div 16 = a"
  by simp


lemma sextet_second_bound: "(b::nat) < 256 \<Longrightarrow> a mod 4 * 16 + b div 16 < 64"
proof -
  assume "b < 256"
  then have "b div 16 < 16" by simp
  moreover have "a mod 4 < 4" by simp
  then have "a mod 4 * 16 \<le> 48" by simp
  ultimately show ?thesis by simp
qed
lemma sextet_third_bound: "(c::nat) < 256 \<Longrightarrow> b mod 16 * 4 + c div 64 < 64"
proof -
  assume "c < 256"
  then have "c div 64 < 4" by simp
  moreover have "b mod 16 < 16" by simp
  then have "b mod 16 * 4 \<le> 60" by simp
  ultimately show ?thesis by simp
qed
lemma sextet_third_last_bound: "(b::nat) mod 16 * 4 < 64"
proof -
  have "b mod 16 < 16" by simp
  then show ?thesis by simp
qed
lemma sextet_second_last_bound: "(a::nat) mod 4 * 16 < 64"
proof -
  have "a mod 4 < 4" by simp
  then show ?thesis by simp
qed

lemma eq_notin_b64_alphabet: "CHR ''='' \<notin> set b64_alphabet"
  by (simp add: b64_alphabet_def)

lemma b64_char_not_eq: "b64_char n \<noteq> CHR ''=''"
proof -
  have "b64_char n \<in> set b64_alphabet"
    unfolding b64_char_def by (rule nth_mem) (simp add: length_b64_alphabet)
  with eq_notin_b64_alphabet show ?thesis by auto
qed

lemma distinct_b64_alphabet: "distinct b64_alphabet"
  by (simp add: b64_alphabet_def)

lemma takeWhile_neq_nth:
  "distinct xs \<Longrightarrow> i < length xs \<Longrightarrow> length (takeWhile (\<lambda>x. x \<noteq> xs ! i) xs) = i"
proof (induction xs arbitrary: i)
  case Nil
  then show ?case by simp
next
  case (Cons a xs)
  then show ?case by (cases i) auto
qed

lemma b64_value_char: "n < 64 \<Longrightarrow> b64_value (b64_char n) = n"
  unfolding b64_value_def b64_char_def
  using takeWhile_neq_nth [OF distinct_b64_alphabet, of n]
  by (simp add: length_b64_alphabet)

lemma decode_byte1:
  "char_of (b64_value (b64_char (of_char a div 4)) * 4
            + b64_value (b64_char (of_char a mod 4 * 16 + of_char b div 16)) div 16) = a"
proof -
  have v1: "b64_value (b64_char (of_char a div 4)) = of_char a div 4"
    by (rule b64_value_char) (simp add: div4_bound of_char_less_256)
  have v2: "b64_value (b64_char (of_char a mod 4 * 16 + of_char b div 16)) = of_char a mod 4 * 16 + of_char b div 16"
    by (rule b64_value_char) (simp add: sextet_second_bound of_char_less_256)
  show ?thesis
    by (simp only: v1 v2 recombine_first [OF of_char_less_256] char_of_char)
qed

lemma decode_byte2:
  "char_of (b64_value (b64_char (of_char a mod 4 * 16 + of_char b div 16)) mod 16 * 16
            + b64_value (b64_char (of_char b mod 16 * 4 + of_char c div 64)) div 4) = b"
proof -
  have v2: "b64_value (b64_char (of_char a mod 4 * 16 + of_char b div 16)) = of_char a mod 4 * 16 + of_char b div 16"
    by (rule b64_value_char) (simp add: sextet_second_bound of_char_less_256)
  have v3: "b64_value (b64_char (of_char b mod 16 * 4 + of_char c div 64)) = of_char b mod 16 * 4 + of_char c div 64"
    by (rule b64_value_char) (simp add: sextet_third_bound of_char_less_256)
  show ?thesis
    by (simp only: v2 v3 recombine_second [OF of_char_less_256 of_char_less_256] char_of_char)
qed

lemma decode_byte3:
  "char_of (b64_value (b64_char (of_char b mod 16 * 4 + of_char c div 64)) mod 4 * 64
            + b64_value (b64_char (of_char c mod 64))) = c"
proof -
  have v3: "b64_value (b64_char (of_char b mod 16 * 4 + of_char c div 64)) = of_char b mod 16 * 4 + of_char c div 64"
    by (rule b64_value_char) (simp add: sextet_third_bound of_char_less_256)
  have v4: "b64_value (b64_char (of_char c mod 64)) = of_char c mod 64"
    by (rule b64_value_char) simp
  show ?thesis
    by (simp only: v3 v4 recombine_third [OF of_char_less_256] char_of_char)
qed

lemma decode_byte2_last:
  "char_of (b64_value (b64_char (of_char a mod 4 * 16 + of_char b div 16)) mod 16 * 16
            + b64_value (b64_char (of_char b mod 16 * 4)) div 4) = b"
proof -
  have v2: "b64_value (b64_char (of_char a mod 4 * 16 + of_char b div 16)) = of_char a mod 4 * 16 + of_char b div 16"
    by (rule b64_value_char) (simp add: sextet_second_bound of_char_less_256)
  have v3: "b64_value (b64_char (of_char b mod 16 * 4)) = of_char b mod 16 * 4"
    by (rule b64_value_char) (simp add: sextet_third_last_bound)
  show ?thesis
    by (simp only: v2 v3 recombine_second_last [OF of_char_less_256] char_of_char)
qed

lemma decode_byte1_last:
  "char_of (b64_value (b64_char (of_char a div 4)) * 4
            + b64_value (b64_char (of_char a mod 4 * 16)) div 16) = a"
proof -
  have v1: "b64_value (b64_char (of_char a div 4)) = of_char a div 4"
    by (rule b64_value_char) (simp add: div4_bound of_char_less_256)
  have v2: "b64_value (b64_char (of_char a mod 4 * 16)) = of_char a mod 4 * 16"
    by (rule b64_value_char) (simp add: sextet_second_last_bound)
  show ?thesis
    by (simp only: v1 v2 recombine_first_last char_of_char)
qed

lemma b64decode_strict_b64encode: "b64decode_strict (b64encode bs) = Some bs"
proof (induction bs rule: b64encode.induct)
  case (1 a b c rest)
  then show ?case
    by (simp only: b64encode.simps b64decode_strict.simps append_Cons append_Nil
          b64_char_not_eq decode_byte1 decode_byte2 decode_byte3 simp_thms if_False option.case)
next
  case (2 a b)
  show ?case
    by (simp only: b64encode.simps b64decode_strict.simps
          b64_char_not_eq decode_byte1 decode_byte2_last simp_thms if_True if_False)
next
  case (3 a)
  show ?case
    by (simp only: b64encode.simps b64decode_strict.simps
          b64_char_not_eq decode_byte1_last simp_thms if_True if_False)
next
  case 4
  then show ?case by simp
qed

subsection \<open>Keys that differ in a trailing NUL byte\<close>

lemma zero_pad_trailing_nul: "zero_pad n (k @ [CHR 0x00]) = zero_pad n k"
  by (auto simp: zero_pad_def nth_append)

lemma aes_key_trailing_nul: "aes_key lib (k @ [CHR 0x00]) = aes_key lib k"
  by (simp add: aes_key_def zero_pad_trailing_nul)

lemma hmac_key_pad_trailing_nul:
  assumes "length k < 64"
  shows "(k @ [CHR 0x00]) @ replicate (64 - length (k @ [CHR 0x00])) (CHR 0x00)
           = k @ replicate (64 - length k) (CHR 0x00)"
proof -
  from assms have "64 - length k = Suc (64 - length (k @ [CHR 0x00]))" by simp
  then show ?thesis by (simp del: length_append)
qed

lemma hmac_sha256_trailing_nul:
  assumes "length k < 64"
  shows "hmac_sha256 lib (k @ [CHR 0x00]) msg = hmac_sha256 lib k msg"
proof -
  from assms have long: "\<not> length (k @ [CHR 0x00]) > 64" "\<not> length k > 64" by simp_all
  show ?thesis
    unfolding hmac_sha256_def Let_def
    by (simp only: long if_False hmac_key_pad_trailing_nul [OF assms])
qed

lemma decrypt_and_verify_trailing_nul:
  assumes "length k < 64"
  shows "decrypt_and_verify lib c (Some (k @ [CHR 0x00])) = decrypt_and_verify lib c (Some k)"
proof -
  have "AesCtr_decrypt lib x (k @ [CHR 0x00]) = AesCtr_decrypt lib x k" for x
    by (simp add: AesCtr_decrypt_def aes_key_trailing_nul Let_def split: option.splits)
  then have d: "MySecurity_decrypt lib x (Some (k @ [CHR 0x00])) = MySecurity_decrypt lib x (Some k)" for x
    by (simp add: MySecurity_decrypt_def split: json.splits)
  have h: "MySecurity_hash lib x (Some (k @ [CHR 0x00])) = MySecurity_hash lib x (Some k)" for x
    by (simp add: MySecurity_hash_def hmac_sha256_trailing_nul [OF assms])
  show ?thesis
    by (simp add: decrypt_and_verify_def d h cong: json.case_cong option.case_cong)
qed

lemma decrypt_and_verify_signed:
  assumes json: "json_loads lib (encrypt_and_sign lib now rnd m (Some k))
             = Some (JObj [(''cipher'', JStr (MySecurity_encrypt lib now rnd m (Some k))),
                           (''hash'', MySecurity_hash lib m (Some k))])"
  shows "decrypt_and_verify lib (JStr (encrypt_and_sign lib now rnd m (Some k))) (Some k')
           = (case AesCtr_decrypt lib (AesCtr_encrypt lib now rnd m k) k' of
                None \<Rightarrow> None
              | Some m' \<Rightarrow> if py_strip (hex (hmac_sha256 lib k' m')) \<noteq> py_strip (hex (hmac_sha256 lib k m))
                           then None else Some m')"
  by (simp add: decrypt_and_verify_def json dict_get_default_def MySecurity_decrypt_def
        MySecurity_encrypt_def MySecurity_hash_def split: option.splits)

lemma decrypt_and_verify_roundtrip:
  assumes b64: "\<And>x. b64decode lib (b64encode x) = Some x"
    and json: "json_loads lib (encrypt_and_sign lib now rnd m (Some k))
             = Some (JObj [(''cipher'', JStr (MySecurity_encrypt lib now rnd m (Some k))),
                           (''hash'', MySecurity_hash lib m (Some k))])"
    and utf8: "utf8_valid lib m"
  shows "decrypt_and_verify lib (JStr (encrypt_and_sign lib now rnd m (Some k))) (Some k) = Some m"
  by (simp add: decrypt_and_verify_signed [OF json]
        AesCtr_roundtrip_same_prefix [OF b64 utf8])

subsection \<open>The key blocks of a key\<close>

lemma hmac_sha256_key_block:
  "hmac_sha256 lib key msg =
     sha256 lib (map (xor_char (CHR 0x5C)) (hmac_key_block lib key)
                 @ sha256 lib (map (xor_char (CHR 0x36)) (hmac_key_block lib key) @ msg))"
  by (simp add: hmac_sha256_def hmac_key_block_def Let_def)

lemma length_hmac_key_block:
  "length k \<le> 64 \<Longrightarrow> length (hmac_key_block lib k) = 64"
  by (simp add: hmac_key_block_def)

lemma hmac_key_block_short:
  "length k \<le> 64 \<Longrightarrow> hmac_key_block lib k = k @ replicate (64 - length k) (CHR 0x00)"
  by (simp add: hmac_key_block_def)

lemma xor_char_inj: "xor_char c x = xor_char c y \<Longrightarrow> x = y"
proof -
  assume a: "xor_char c x = xor_char c y"
  have comm: "xor_char p q = xor_char q p" for p q
    by (cases p; cases q) auto
  have "x = xor_char (xor_char x c) c" by simp
  also have "\<dots> = xor_char (xor_char y c) c" using a by (simp only: comm [of x c] comm [of y c])
  also have "\<dots> = y" by simp
  finally show ?thesis .
qed

lemma map_xor_char_inj: "map (xor_char c) xs = map (xor_char c) ys \<Longrightarrow> xs = ys"
proof (induction xs arbitrary: ys)
  case Nil
  then show ?case by simp
next
  case (Cons x xs)
  then obtain y ys' where ys: "ys = y # ys'" by (cases ys) auto
  with Cons.prems have "xor_char c x = xor_char c y" "map (xor_char c) xs = map (xor_char c) ys'"
    by simp_all
  then show ?case using Cons.IH xor_char_inj ys by blast
qed

lemma distinct_hex_digits: "distinct ''0123456789abcdef''"
  by simp

lemma hex_digit_inj:
  assumes "a < 16" "b < 16" "hex_digit a = hex_digit b"
  shows "a = b"
proof -
  have "length ''0123456789abcdef'' = 16" by simp
  with assms show ?thesis
    using nth_eq_iff_index_eq [OF distinct_hex_digits, of a b]
    by (simp add: hex_digit_def)
qed

lemma hex_byte_inj:
  assumes "hex_digit (of_char x div 16) = hex_digit (of_char y div 16)"
    and "hex_digit (of_char x mod 16) = hex_digit (of_char y mod 16)"
  shows "x = y"
proof -
  have bx: "(of_char x :: nat) < 256" and by': "(of_char y :: nat) < 256"
    by (rule of_char_less_256)+
  have d: "(of_char x :: nat) div 16 = of_char y div 16"
    by (rule hex_digit_inj [OF div16_bound [OF bx] div16_bound [OF by'] assms(1)])
  have m: "(of_char x :: nat) mod 16 = of_char y mod 16"
    by (rule hex_digit_inj [OF _ _ assms(2)]) simp_all
  have "(of_char x :: nat) = 16 * (of_char x div 16) + of_char x mod 16"
    by (simp only: mult_div_mod_eq)
  also have "\<dots> = 16 * (of_char y div 16) + of_char y mod 16"
    by (simp only: d m)
  also have "\<dots> = of_char y"
    by (simp only: mult_div_mod_eq)
  finally have "(of_char x :: nat) = of_char y" .
  then show ?thesis by simp
qed

lemma hex_inj: "hex a = hex b \<Longrightarrow> a = b"
proof (induction a arbitrary: b)
  case Nil
  then show ?case by (cases b) (simp_all add: hex_def)
next
  case (Cons x xs)
  then show ?case
  proof (cases b)
    case Nil
    with Cons.prems show ?thesis by (simp add: hex_def)
  next
    case (Cons y ys)
    with Cons.prems have "x = y" "hex xs = hex ys"
      using hex_byte_inj [of x y] by (simp_all add: hex_def)
    with Cons.IH Cons show ?thesis by simp
  qed
qed

text \<open>A hex digest has no whitespace to strip.\<close>

lemma lstrip_seqs_none:
  assumes "\<And>w. w \<in> set seqs \<Longrightarrow> w \<noteq> [] \<and> (s = [] \<or> hd w \<noteq> hd s)"
  shows "lstrip_seqs seqs n s = s"
proof (cases n)
  case 0
  then show ?thesis by simp
next
  case (Suc n')
  have "find (\<lambda>w. take (length w) s = w) seqs = None"
  proof (simp only: find_None_iff, intro notI)
    assume "\<exists>w. w \<in> set seqs \<and> take (length w) s = w"
    then obtain w where w: "w \<in> set seqs" "take (length w) s = w" by blast
    from assms [OF w(1)] have ne: "w \<noteq> []" and d: "s = [] \<or> hd w \<noteq> hd s" by simp_all
    from w(2) ne have "s \<noteq> []" by auto
    moreover from w(2) ne this have "hd w = hd s"
      by (metis hd_take length_greater_0_conv)
    ultimately show False using d by simp
  qed
  with Suc show ?thesis by simp
qed

lemma hex_digit_in: "hex_digit n \<in> set ''0123456789abcdef''"
  unfolding hex_digit_def by (rule nth_mem) simp

lemma hex_digit_not_first:
  "w \<in> set whitespace_utf8 \<Longrightarrow> hd w \<noteq> hex_digit n"
  using hex_digit_in [of n] by (auto simp: whitespace_utf8_def)

lemma hex_digit_not_last:
  "w \<in> set (map rev whitespace_utf8) \<Longrightarrow> hd w \<noteq> hex_digit n"
  using hex_digit_in [of n] by (auto simp: whitespace_utf8_def)

lemma whitespace_nonempty:
  "w \<in> set whitespace_utf8 \<Longrightarrow> w \<noteq> []"
  "w \<in> set (map rev whitespace_utf8) \<Longrightarrow> w \<noteq> []"
  by (auto simp: whitespace_utf8_def)

lemma hd_hex: "bs \<noteq> [] \<Longrightarrow> hd (hex bs) = hex_digit (of_char (hd bs) div 16)"
  by (cases bs) (simp_all add: hex_def)

lemma hd_rev_hex: "bs \<noteq> [] \<Longrightarrow> hd (rev (hex bs)) = hex_digit (of_char (last bs) mod 16)"
  by (cases bs rule: rev_cases) (simp_all add: hex_def)

lemma hex_Nil: "(hex bs = []) = (bs = [])"
  by (cases bs) (simp_all add: hex_def)

lemma py_strip_hex: "py_strip (hex bs) = hex bs"
proof -
  have l: "lstrip_seqs whitespace_utf8 n (hex bs) = hex bs" for n
    by (rule lstrip_seqs_none)
       (cases "bs = []"; simp add: whitespace_nonempty hex_Nil hd_hex hex_digit_not_first)
  have r: "lstrip_seqs (map rev whitespace_utf8) n (rev (hex bs)) = rev (hex bs)" for n
    by (rule lstrip_seqs_none)
       (cases "bs = []"; simp only: whitespace_nonempty hex_Nil hd_rev_hex hex_digit_not_last
          rev_is_Nil_conv simp_thms not_False_eq_True)
  show ?thesis by (simp only: py_strip_def Let_def l r rev_rev_ident)
qed

text \<open>Keys of at most 64 bytes have the same blocks when they differ by trailing NUL bytes only.\<close>

lemma dropWhile_replicate_append:
  "P x \<Longrightarrow> dropWhile P (replicate n x @ ys) = dropWhile P ys"
  by (induction n) simp_all

lemma rstrip_nul_append_nuls: "rstrip_nul (k @ replicate n (CHR 0x00)) = rstrip_nul k"
  by (simp add: rstrip_nul_def dropWhile_replicate_append)

lemma takeWhile_eq_replicate:
  "takeWhile (\<lambda>c. c = x) xs = replicate (length (takeWhile (\<lambda>c. c = x) xs)) x"
  by (induction xs) simp_all

lemma rstrip_nul_decompose:
  "\<exists>a. k = rstrip_nul k @ replicate a (CHR 0x00) \<and> length k = length (rstrip_nul k) + a"
proof -
  let ?P = "\<lambda>c. c = CHR 0x00"
  let ?a = "length (takeWhile ?P (rev k))"
  have "rev (dropWhile ?P (rev k)) @ rev (takeWhile ?P (rev k))
          = rev (takeWhile ?P (rev k) @ dropWhile ?P (rev k))"
    by (simp only: rev_append)
  also have "\<dots> = k"
    by (simp only: takeWhile_dropWhile_id rev_rev_ident)
  finally have "k = rstrip_nul k @ rev (takeWhile ?P (rev k))"
    by (simp only: rstrip_nul_def)
  moreover have "rev (takeWhile ?P (rev k)) = replicate ?a (CHR 0x00)"
    using takeWhile_eq_replicate [of "CHR 0x00" "rev k"] by (metis rev_replicate)
  ultimately have k: "k = rstrip_nul k @ replicate ?a (CHR 0x00)" by simp
  then have "length k = length (rstrip_nul k @ replicate ?a (CHR 0x00))" by (rule arg_cong)
  then have "length k = length (rstrip_nul k) + ?a" by simp
  with k show ?thesis by blast
qed

lemma zero_pad_append_nuls: "zero_pad n (k @ replicate a (CHR 0x00)) = zero_pad n k"
  by (auto simp: zero_pad_def nth_append)

lemma zero_pad_rstrip_nul: "zero_pad n (rstrip_nul k) = zero_pad n k"
proof -
  obtain a where "k = rstrip_nul k @ replicate a (CHR 0x00)"
    using rstrip_nul_decompose by blast
  then show ?thesis using zero_pad_append_nuls [of n "rstrip_nul k" a] by simp
qed

lemma hmac_key_block_rstrip_nul:
  assumes "length k \<le> 64"
  shows "hmac_key_block lib k = rstrip_nul k @ replicate (64 - length (rstrip_nul k)) (CHR 0x00)"
proof -
  obtain a where k: "k = rstrip_nul k @ replicate a (CHR 0x00)"
    and l: "length k = length (rstrip_nul k) + a"
    using rstrip_nul_decompose by blast
  have "hmac_key_block lib k = k @ replicate (64 - length k) (CHR 0x00)"
    using assms by (rule hmac_key_block_short)
  also have "\<dots> = (rstrip_nul k @ replicate a (CHR 0x00)) @ replicate (64 - length k) (CHR 0x00)"
    using k by simp
  also have "\<dots> = rstrip_nul k @ replicate (a + (64 - length k)) (CHR 0x00)"
    by (simp add: replicate_add)
  also have "a + (64 - length k) = 64 - length (rstrip_nul k)"
    using l assms by simp
  finally show ?thesis .
qed

lemma rstrip_nul_hmac_key_block:
  assumes "length k \<le> 64"
  shows "rstrip_nul (hmac_key_block lib k) = rstrip_nul k"
  by (simp add: hmac_key_block_short [OF assms] rstrip_nul_append_nuls)

lemma key_blocks_iff:
  assumes "length k \<le> 64" "length k' \<le> 64"
  shows "(zero_pad 16 k' = zero_pad 16 k \<and> hmac_key_block lib k' = hmac_key_block lib k)
           = (rstrip_nul k' = rstrip_nul k)"
proof
  assume "zero_pad 16 k' = zero_pad 16 k \<and> hmac_key_block lib k' = hmac_key_block lib k"
  then have "rstrip_nul (hmac_key_block lib k') = rstrip_nul (hmac_key_block lib k)" by simp
  then show "rstrip_nul k' = rstrip_nul k"
    by (simp only: rstrip_nul_hmac_key_block [OF assms(1)] rstrip_nul_hmac_key_block [OF assms(2)])
next
  assume e: "rstrip_nul k' = rstrip_nul k"
  have "zero_pad 16 k' = zero_pad 16 k"
    using zero_pad_rstrip_nul [of 16 k] zero_pad_rstrip_nul [of 16 k'] e by simp
  moreover have "hmac_key_block lib k' = hmac_key_block lib k"
    by (simp only: hmac_key_block_rstrip_nul [OF assms(1)] hmac_key_block_rstrip_nul [OF assms(2)] e)
  ultimately show "zero_pad 16 k' = zero_pad 16 k \<and> hmac_key_block lib k' = hmac_key_block lib k"
    by simp
qed

lemma hmac_sha256_same_block:
  "hmac_key_block lib k' = hmac_key_block lib k \<Longrightarrow> hmac_sha256 lib k' msg = hmac_sha256 lib k msg"
  by (simp add: hmac_sha256_key_block)

lemma hmac_sha256_collision:
  assumes inj: "inj (sha256 lib)"
    and len: "length (hmac_key_block lib k') = length (hmac_key_block lib k)"
    and eq: "hmac_sha256 lib k' m' = hmac_sha256 lib k m"
  shows "hmac_key_block lib k' = hmac_key_block lib k"
proof -
  from eq have "map (xor_char (CHR 0x5C)) (hmac_key_block lib k')
                  @ sha256 lib (map (xor_char (CHR 0x36)) (hmac_key_block lib k') @ m')
              = map (xor_char (CHR 0x5C)) (hmac_key_block lib k)
                  @ sha256 lib (map (xor_char (CHR 0x36)) (hmac_key_block lib k) @ m)"
    unfolding hmac_sha256_key_block using inj by (simp add: inj_eq)
  with len have "map (xor_char (CHR 0x5C)) (hmac_key_block lib k')
                   = map (xor_char (CHR 0x5C)) (hmac_key_block lib k)"
    by simp
  then show ?thesis by (rule map_xor_char_inj)
qed

lemma aes_key_same_block: "zero_pad 16 k' = zero_pad 16 k \<Longrightarrow> aes_key lib k' = aes_key lib k"
  by (simp add: aes_key_def)

lemma decrypt_and_verify_same_blocks:
  assumes "zero_pad 16 k' = zero_pad 16 k" and "hmac_key_block lib k' = hmac_key_block lib k"
  shows "decrypt_and_verify lib c (Some k') = decrypt_and_verify lib c (Some k)"
proof -
  have "AesCtr_decrypt lib x k' = AesCtr_decrypt lib x k" for x
    by (simp add: AesCtr_decrypt_def aes_key_same_block [OF assms(1)] Let_def split: option.splits)
  then have d: "MySecurity_decrypt lib x (Some k') = MySecurity_decrypt lib x (Some k)" for x
    by (simp add: MySecurity_decrypt_def split: json.splits)
  have h: "MySecurity_hash lib x (Some k') = MySecurity_hash lib x (Some k)" for x
    by (simp add: MySecurity_hash_def hmac_sha256_same_block [OF assms(2)])
  show ?thesis
    by (simp add: decrypt_and_verify_def d h cong: json.case_cong option.case_cong)
qed

lemma decrypt_and_verify_other_block:
  assumes json: "json_loads lib (encrypt_and_sign lib now rnd m (Some k))
             = Some (JObj [(''cipher'', JStr (MySecurity_encrypt lib now rnd m (Some k))),
                           (''hash'', MySecurity_hash lib m (Some k))])"
    and inj: "inj (sha256 lib)"
    and len: "length (hmac_key_block lib k') = length (hmac_key_block lib k)"
    and neq: "hmac_key_block lib k' \<noteq> hmac_key_block lib k"
  shows "decrypt_and_verify lib (JStr (encrypt_and_sign lib now rnd m (Some k))) (Some k') = None"
proof -
  have "py_strip (hex (hmac_sha256 lib k' m')) \<noteq> py_strip (hex (hmac_sha256 lib k m))" for m'
    using hmac_sha256_collision [OF inj len, of m' m] neq hex_inj
    by (auto simp only: py_strip_hex)
  then show ?thesis
    by (simp add: decrypt_and_verify_signed [OF json] split: option.splits)
qed

text \<open>A key with another HMAC key block that opens a message shows a collision of the hash.\<close>

lemma hmac_sha256_outer_input:
  "hmac_sha256 lib key msg = sha256 lib (hmac_outer_input lib key msg)"
  by (simp add: hmac_sha256_key_block hmac_outer_input_def)

lemma hmac_outer_input_neq:
  assumes len: "length (hmac_key_block lib k') = length (hmac_key_block lib k)"
    and neq: "hmac_key_block lib k' \<noteq> hmac_key_block lib k"
  shows "hmac_outer_input lib k' m' \<noteq> hmac_outer_input lib k m"
proof
  assume "hmac_outer_input lib k' m' = hmac_outer_input lib k m"
  with len have "map (xor_char (CHR 0x5C)) (hmac_key_block lib k')
                   = map (xor_char (CHR 0x5C)) (hmac_key_block lib k)"
    by (simp add: hmac_outer_input_def)
  then have "hmac_key_block lib k' = hmac_key_block lib k" by (rule map_xor_char_inj)
  with neq show False by simp
qed

lemma decrypt_and_verify_other_block_collision:
  assumes json: "json_loads lib (encrypt_and_sign lib now rnd m (Some k))
             = Some (JObj [(''cipher'', JStr (MySecurity_encrypt lib now rnd m (Some k))),
                           (''hash'', MySecurity_hash lib m (Some k))])"
    and len: "length (hmac_key_block lib k') = length (hmac_key_block lib k)"
    and neq: "hmac_key_block lib k' \<noteq> hmac_key_block lib k"
    and some: "decrypt_and_verify lib (JStr (encrypt_and_sign lib now rnd m (Some k))) (Some k') = Some m'"
  shows "hmac_outer_input lib k' m' \<noteq> hmac_outer_input lib k m
       \<and> sha256 lib (hmac_outer_input lib k' m') = sha256 lib (hmac_outer_input lib k m)"
proof -
  from some have "py_strip (hex (hmac_sha256 lib k' m')) = py_strip (hex (hmac_sha256 lib k m))"
    by (simp add: decrypt_and_verify_signed [OF json] split: option.splits if_splits)
  then have "hmac_sha256 lib k' m' = hmac_sha256 lib k m"
    by (simp only: py_strip_hex) (rule hex_inj)
  then show ?thesis
    using hmac_outer_input_neq [OF len neq] by (simp add: hmac_sha256_outer_input)
qed

subsection \<open>The stand-in library\<close>

lemma quoted_inside:
  "dq \<notin> set v \<Longrightarrow> quoted (v @ dq # rest) True cur = (cur @ v) # quoted rest False []"
  by (induction v arbitrary: cur) auto

lemma quoted_outside:
  "c \<noteq> dq \<Longrightarrow> quoted (c # rest) False cur = quoted rest False cur"
  by simp

lemma quoted_open: "quoted (dq # rest) False cur = quoted rest True []"
  by simp

lemma dq_neq [simp]: "CHR ''{'' \<noteq> dq" "CHR ''}'' \<noteq> dq" "CHR '':'' \<noteq> dq" "CHR '','' \<noteq> dq"
  by (simp_all add: dq_def)

lemma flat_loads_dumps_two:
  assumes "dq \<notin> set k1" "dq \<notin> set v1" "dq \<notin> set k2" "dq \<notin> set v2"
  shows "flat_loads (flat_dumps (JObj [(k1, JStr v1), (k2, JStr v2)]))
           = Some (JObj [(k1, JStr v1), (k2, JStr v2)])"
proof -
  have "quoted (''{'' @ ([dq] @ k1 @ [dq] @ '':'' @ [dq] @ v1 @ [dq]) @ '','' @
                 ([dq] @ k2 @ [dq] @ '':'' @ [dq] @ v2 @ [dq]) @ ''}'') False []
          = [k1, v1, k2, v2]"
    using assms
    by (simp add: quoted_inside quoted_outside quoted_open del: quoted.simps(2))
  then show ?thesis
    by (simp add: flat_loads_def del: quoted.simps(2))
qed

lemma dq_notin_b64_alphabet: "dq \<notin> set b64_alphabet"
  by (simp add: b64_alphabet_def dq_def)

lemma b64_char_not_dq: "b64_char n \<noteq> dq"
proof -
  have "b64_char n \<in> set b64_alphabet"
    unfolding b64_char_def by (rule nth_mem) (simp add: length_b64_alphabet)
  with dq_notin_b64_alphabet show ?thesis by auto
qed

lemma eq_not_dq: "dq \<noteq> CHR ''=''"
  by (simp add: dq_def)

lemma dq_notin_b64encode: "dq \<notin> set (b64encode bs)"
  by (induction bs rule: b64encode.induct)
     (simp_all add: b64_char_not_dq [symmetric] eq_not_dq)

lemma hex_digit_not_dq: "hex_digit n \<noteq> dq"
proof -
  have "hex_digit n \<in> set ''0123456789abcdef''"
    unfolding hex_digit_def by (rule nth_mem) simp
  then show ?thesis by (auto simp: dq_def)
qed

lemma dq_notin_hex: "dq \<notin> set (hex bs)"
  using hex_digit_not_dq by (induction bs) (auto simp: hex_def eq_commute [of dq])

lemma demo_lib_b64: "b64decode demo_lib (b64encode x) = Some x"
  by (simp add: demo_lib_def b64decode_strict_b64encode)

lemma demo_lib_json_signed:
  "json_loads demo_lib (encrypt_and_sign demo_lib now rnd m (Some k))
     = Some (JObj [(''cipher'', JStr (MySecurity_encrypt demo_lib now rnd m (Some k))),
                   (''hash'', MySecurity_hash demo_lib m (Some k))])"
proof -
  have c: "dq \<notin> set ''cipher''" and h: "dq \<notin> set ''hash''" by (simp_all add: dq_def)
  have l: "json_loads demo_lib = flat_loads" and d: "json_dumps demo_lib = flat_dumps"
    by (simp_all add: demo_lib_def)
  show ?thesis
    unfolding encrypt_and_sign_def l d MySecurity_encrypt_def MySecurity_hash_def AesCtr_encrypt_def
      Let_def option.case
    by (rule flat_loads_dumps_two [OF c dq_notin_b64encode h dq_notin_hex])
qed

lemma demo_lib_injective_b64: "b64decode demo_lib_injective (b64encode x) = Some x"
  by (simp add: demo_lib_injective_def demo_lib_def b64decode_strict_b64encode)

lemma demo_lib_injective_json_signed:
  "json_loads demo_lib_injective (encrypt_and_sign demo_lib_injective now rnd m (Some k))
     = Some (JObj [(''cipher'', JStr (MySecurity_encrypt demo_lib_injective now rnd m (Some k))),
                   (''hash'', MySecurity_hash demo_lib_injective m (Some k))])"
proof -
  have c: "dq \<notin> set ''cipher''" and h: "dq \<notin> set ''hash''" by (simp_all add: dq_def)
  have l: "json_loads demo_lib_injective = flat_loads"
    and d: "json_dumps demo_lib_injective = flat_dumps"
    by (simp_all add: demo_lib_injective_def demo_lib_def)
  show ?thesis
    unfolding encrypt_and_sign_def l d MySecurity_encrypt_def MySecurity_hash_def AesCtr_encrypt_def
      Let_def option.case
    by (rule flat_loads_dumps_two [OF c dq_notin_b64encode h dq_notin_hex])
qed

lemma demo_lib_injective_sha256: "inj (sha256 demo_lib_injective)"
  by (simp add: demo_lib_injective_def demo_lib_def inj_def)

lemma eq_notin_base64url_nopad: "CHR ''='' \<notin> set (base64url_nopad bs)"
  by (induction bs rule: base64url_nopad.induct)
     (simp_all add: b64url_char_not_eq [symmetric])

subsection \<open>The channel secret\<close>

text \<open>
  C6. \<^verbatim>\<open>derive_channel_secret\<close> is the specification's function: PBKDF2-HMAC-SHA256 over
  channel name followed by password, salt \<^verbatim>\<open>messaging-platform\<close>, 100,000 iterations,
  32 bytes, written base64url without padding after the prefix \<^verbatim>\<open>channel_\<close>. The code
  encodes with padding and strips the \<^verbatim>\<open>=\<close> signs; the two encodings agree on every
  byte string. The result starts with \<^verbatim>\<open>channel_\<close>, has no \<^verbatim>\<open>=\<close> after it, and
  depends on name and password through their concatenation only. Being a function, it
  gives the same string for the same inputs.
\<close>

theorem derive_channel_secret_refines_spec:
  "derive_channel_secret lib name password = spec_deriveChannelSecret lib name password
   \<and> take 8 (derive_channel_secret lib name password) = ''channel_''
   \<and> CHR ''='' \<notin> set (drop 8 (derive_channel_secret lib name password))
   \<and> derive_channel_secret lib (name @ x) password = derive_channel_secret lib name (x @ password)"
  by (simp add: derive_channel_secret_def spec_deriveChannelSecret_def urlsafe_b64encode_nopad
        Let_def eq_notin_base64url_nopad)

subsection \<open>The AES key\<close>

text \<open>
  C10. When base64 decoding inverts the encoding and \<open>m\<close> is the UTF-8 encoding of a
  string, two passphrases that agree on their first 16 bytes have the same AES key, and
  what \<^verbatim>\<open>AesCtr.encrypt\<close> makes of \<open>m\<close> under the one, at any time and with any random
  bytes, \<^verbatim>\<open>AesCtr.decrypt\<close> turns back into \<open>m\<close> under the other. For a derived channel
  secret the key is that of \<^verbatim>\<open>channel_\<close> followed by the first 8 characters of the
  encoded key material.
\<close>

theorem AesCtr_key_is_first_16_bytes:
  assumes b64: "\<And>x. b64decode lib (b64encode x) = Some x"
    and utf8: "utf8_valid lib m"
    and keys: "take 16 k1 = take 16 k2"
  shows "aes_key lib k1 = aes_key lib k2
       \<and> AesCtr_decrypt lib (AesCtr_encrypt lib now rnd m k1) k2 = Some m
       \<and> aes_key lib (derive_channel_secret lib name password)
           = aes_key lib (''channel_'' @ take 8 (rstrip_eq (urlsafe_b64encode
               (pbkdf2_hmac_sha256 lib (name @ password) ''messaging-platform'' 100000 32))))"
proof -
  have "take 16 (derive_channel_secret lib name password)
          = take 16 (''channel_'' @ take 8 (rstrip_eq (urlsafe_b64encode
               (pbkdf2_hmac_sha256 lib (name @ password) ''messaging-platform'' 100000 32))))"
    by (simp add: derive_channel_secret_def Let_def)
  then show ?thesis
    using aes_key_take [OF keys] AesCtr_roundtrip_same_prefix [OF b64 utf8 keys] aes_key_take
    by blast
qed

theorem AesCtr_key_is_first_16_bytes_witness:
  "AesCtr_decrypt demo_lib
     (AesCtr_encrypt demo_lib 1234 5 ''hi'' ''channel_abcdefghIJKL'') ''channel_abcdefghMNOP''
     = Some ''hi''"
proof -
  have u: "utf8_valid demo_lib ''hi''" by (simp add: demo_lib_def)
  have k: "take 16 ''channel_abcdefghIJKL'' = take 16 ''channel_abcdefghMNOP''" by simp
  from AesCtr_key_is_first_16_bytes [OF demo_lib_b64 u k] show ?thesis by blast
qed

subsection \<open>Signed messages\<close>

text \<open>
  C5, as the code has it. When base64 decoding inverts the encoding, the signed message
  parses back to the dictionary it was dumped from and \<open>m\<close> is the UTF-8 encoding of a
  string, \<^verbatim>\<open>decrypt_and_verify(encrypt_and_sign(m, k), k)\<close> returns \<open>m\<close>, and so does
  every key \<open>k'\<close> with the zero-padded 16-byte AES key block and the 64-byte HMAC key
  block of \<open>k\<close>. For keys of at most 64 bytes these are the keys that differ from \<open>k\<close>
  by trailing NUL bytes only. For every other key \<open>k'\<close> of at most 64 bytes, \<open>k\<close> being
  of at most 64 bytes too, a result that is not null exhibits a collision of SHA-256, on
  the two different inputs of HMAC's outer hash; so the result is null when SHA-256 has
  no collisions (is one-to-one).
\<close>

theorem decrypt_and_verify_of_signed:
  assumes b64: "\<And>x. b64decode lib (b64encode x) = Some x"
    and json: "json_loads lib (encrypt_and_sign lib now rnd m (Some k))
             = Some (JObj [(''cipher'', JStr (MySecurity_encrypt lib now rnd m (Some k))),
                           (''hash'', MySecurity_hash lib m (Some k))])"
    and utf8: "utf8_valid lib m"
  shows "decrypt_and_verify lib (JStr (encrypt_and_sign lib now rnd m (Some k))) (Some k) = Some m
       \<and> (\<forall>k'. zero_pad 16 k' = zero_pad 16 k \<and> hmac_key_block lib k' = hmac_key_block lib k
             \<longrightarrow> decrypt_and_verify lib (JStr (encrypt_and_sign lib now rnd m (Some k))) (Some k') = Some m)
       \<and> (\<forall>k'. length k \<le> 64 \<and> length k' \<le> 64
             \<longrightarrow> (zero_pad 16 k' = zero_pad 16 k \<and> hmac_key_block lib k' = hmac_key_block lib k)
                   = (rstrip_nul k' = rstrip_nul k))
       \<and> (\<forall>k' m'. length k \<le> 64 \<and> length k' \<le> 64 \<and> rstrip_nul k' \<noteq> rstrip_nul k
               \<and> decrypt_and_verify lib (JStr (encrypt_and_sign lib now rnd m (Some k))) (Some k') = Some m'
             \<longrightarrow> hmac_outer_input lib k' m' \<noteq> hmac_outer_input lib k m
                 \<and> sha256 lib (hmac_outer_input lib k' m') = sha256 lib (hmac_outer_input lib k m))
       \<and> (inj (sha256 lib)
            \<longrightarrow> (\<forall>k'. length k \<le> 64 \<and> length k' \<le> 64 \<and> rstrip_nul k' \<noteq> rstrip_nul k
                   \<longrightarrow> decrypt_and_verify lib (JStr (encrypt_and_sign lib now rnd m (Some k))) (Some k') = None))"
proof -
  let ?c = "JStr (encrypt_and_sign lib now rnd m (Some k))"
  have r: "decrypt_and_verify lib ?c (Some k) = Some m"
    by (rule decrypt_and_verify_roundtrip [OF b64 json utf8])
  have same: "decrypt_and_verify lib ?c (Some k') = Some m"
    if "zero_pad 16 k' = zero_pad 16 k \<and> hmac_key_block lib k' = hmac_key_block lib k" for k'
    using that decrypt_and_verify_same_blocks [of k' k lib] r by simp
  have blocks: "(zero_pad 16 k' = zero_pad 16 k \<and> hmac_key_block lib k' = hmac_key_block lib k)
          = (rstrip_nul k' = rstrip_nul k)"
    if "length k \<le> 64 \<and> length k' \<le> 64" for k'
    using that key_blocks_iff [of k k' lib] by simp
  have other: "hmac_key_block lib k' \<noteq> hmac_key_block lib k
             \<and> length (hmac_key_block lib k') = length (hmac_key_block lib k)"
    if l: "length k \<le> 64 \<and> length k' \<le> 64 \<and> rstrip_nul k' \<noteq> rstrip_nul k" for k'
  proof
    show "hmac_key_block lib k' \<noteq> hmac_key_block lib k"
    proof
      assume "hmac_key_block lib k' = hmac_key_block lib k"
      then have "rstrip_nul (hmac_key_block lib k') = rstrip_nul (hmac_key_block lib k)" by simp
      with l show False by (simp add: rstrip_nul_hmac_key_block)
    qed
    from l show "length (hmac_key_block lib k') = length (hmac_key_block lib k)"
      by (simp add: length_hmac_key_block)
  qed
  have collision: "hmac_outer_input lib k' m' \<noteq> hmac_outer_input lib k m
         \<and> sha256 lib (hmac_outer_input lib k' m') = sha256 lib (hmac_outer_input lib k m)"
    if "length k \<le> 64 \<and> length k' \<le> 64 \<and> rstrip_nul k' \<noteq> rstrip_nul k
          \<and> decrypt_and_verify lib ?c (Some k') = Some m'" for k' m'
    using that other [of k'] decrypt_and_verify_other_block_collision [OF json, of k' m'] by simp
  have null: "decrypt_and_verify lib ?c (Some k') = None"
    if "inj (sha256 lib)" and "length k \<le> 64 \<and> length k' \<le> 64 \<and> rstrip_nul k' \<noteq> rstrip_nul k"
    for k'
    using that other [of k'] decrypt_and_verify_other_block [OF json, of k'] by simp
  from r same blocks collision null show ?thesis by blast
qed

theorem decrypt_and_verify_of_signed_witness:
  "decrypt_and_verify demo_lib_injective
       (JStr (encrypt_and_sign demo_lib_injective 1234 5 ''hi'' (Some ''a''))) (Some ''a'') = Some ''hi''
   \<and> decrypt_and_verify demo_lib_injective
       (JStr (encrypt_and_sign demo_lib_injective 1234 5 ''hi'' (Some ''a''))) (Some [CHR ''a'', CHR 0x00])
       = Some ''hi''
   \<and> decrypt_and_verify demo_lib_injective
       (JStr (encrypt_and_sign demo_lib_injective 1234 5 ''hi'' (Some ''a''))) (Some ''b'') = None"
proof -
  have u: "utf8_valid demo_lib_injective ''hi''"
    by (simp add: demo_lib_injective_def demo_lib_def)
  have n: "rstrip_nul [CHR ''a'', CHR 0x00] = rstrip_nul ''a''"
    and b: "rstrip_nul ''b'' \<noteq> rstrip_nul ''a''"
    and l: "length ''a'' \<le> 64" "length [CHR ''a'', CHR 0x00] \<le> 64" "length ''b'' \<le> 64"
    by (simp_all add: rstrip_nul_def)
  from decrypt_and_verify_of_signed
         [OF demo_lib_injective_b64 demo_lib_injective_json_signed u, of 1234 5 "''a''"]
    demo_lib_injective_sha256 n b l
  show ?thesis by blast
qed

text \<open>
  The claim as stated fails for keys that differ in a trailing NUL byte: the AES key
  material and the HMAC key are both padded with zero bytes, so \<^verbatim>\<open>"a\0"\<close> opens, for
  every library, exactly what \<^verbatim>\<open>"a"\<close> opens; run on the stand-in library it returns
  the plaintext.
\<close>

theorem decrypt_and_verify_trailing_nul_counterexample:
  "(\<forall>lib now rnd.
      decrypt_and_verify lib (JStr (encrypt_and_sign lib now rnd ''hi'' (Some ''a''))) (Some [CHR ''a'', CHR 0x00])
        = decrypt_and_verify lib (JStr (encrypt_and_sign lib now rnd ''hi'' (Some ''a''))) (Some ''a''))
   \<and> decrypt_and_verify demo_lib (JStr (encrypt_and_sign demo_lib 1234 5 ''hi'' (Some ''a'')))
         (Some [CHR ''a'', CHR 0x00]) = Some ''hi''
   \<and> [CHR ''a'', CHR 0x00] \<noteq> ''a''"
proof -
  have l: "length ''a'' < 64" by simp
  have u: "utf8_valid demo_lib ''hi''" by (simp add: demo_lib_def)
  have e: "decrypt_and_verify lib c (Some [CHR ''a'', CHR 0x00]) = decrypt_and_verify lib c (Some ''a'')"
    for lib c
    using decrypt_and_verify_trailing_nul [OF l, of lib c] by simp
  show ?thesis
    using decrypt_and_verify_roundtrip [OF demo_lib_b64 demo_lib_json_signed u, of 1234 5 "''a''"]
    by (simp add: e)
qed

subsection \<open>A password reply with another request id\<close>

text \<open>
  C7 at the failing inputs. A request is pending with id \<open>rid\<close>; a password reply
  arrives whose JSON content carries another request id and a cipher. On the receive
  path \<^verbatim>\<open>_handle_password_reply\<close> decrypts the cipher with the pending private key and
  installs the password it finds, where the claim has the reply ignored. (The blocking
  wait does skip such a content: \<open>wait_cipher\<close> is \<open>None\<close>.)
\<close>

theorem handle_password_reply_mismatched_request_id:
  assumes "pending_private_key s = Some priv" and "pending_request_id s = Some rid"
    and "dict_get ev ''content'' = JStr c" and "c \<noteq> []"
    and "json_loads lib c = Some (JObj [(''requestId'', JStr rid'), (''cipher'', JStr ct)])"
    and "rid' \<noteq> rid" and "ct \<noteq> []"
    and "MySecurity_rsa_decrypt lib priv (JStr ct) = Some dec"
  shows "handle_password_reply lib ev s = install_password lib dec s
       \<and> channel_password (handle_password_reply lib ev s) = snd (reply_credentials lib dec)
       \<and> wait_cipher lib (JStr c) (Some rid) = None"
proof -
  have w: "wait_cipher lib (JStr c) (Some rid) = None"
    using assms(5,6) by (simp add: wait_cipher_def dict_get_def)
  have h: "handle_password_reply lib ev s = install_password lib dec s"
    using assms by (simp add: handle_password_reply_def reply_cipher_def Let_def dict_get_def py_or_def)
  have "channel_password (install_password lib dec s) = snd (reply_credentials lib dec)"
    by (simp add: install_password_def Let_def split: prod.splits option.splits)
  with w h show ?thesis by simp
qed

theorem handle_password_reply_mismatched_request_id_witness:
  "channel_password (handle_password_reply demo_lib
      [(''type'', JStr ''password-reply''), (''to'', JStr ''b1''),
       (''content'', JStr (flat_dumps (JObj [(''requestId'', JStr ''R2''),
                                             (''cipher'', JStr (b64encode (rev ''s3cret'')))])))]
      (agent_init\<lparr>ready_state := True, session_id := JStr ''S1'', agent_name := Some ''b1'',
                   pending_private_key := Some 7, pending_request_id := Some ''R1''\<rparr>))
     = JStr ''s3cret''"
proof -
  let ?c = "flat_dumps (JObj [(''requestId'', JStr ''R2''), (''cipher'', JStr (b64encode (rev ''s3cret'')))])"
  let ?ev = "[(''type'', JStr ''password-reply''), (''to'', JStr ''b1''), (''content'', JStr ?c)]"
  let ?s = "agent_init\<lparr>ready_state := True, session_id := JStr ''S1'', agent_name := Some ''b1'',
                   pending_private_key := Some 7, pending_request_id := Some ''R1''\<rparr>"
  have a1: "pending_private_key ?s = Some 7" and a2: "pending_request_id ?s = Some ''R1''"
    by simp_all
  have a3: "dict_get ?ev ''content'' = JStr ?c" by (simp add: dict_get_def)
  have a4: "?c \<noteq> []" by simp
  have a5: "json_loads demo_lib ?c
      = Some (JObj [(''requestId'', JStr ''R2''), (''cipher'', JStr (b64encode (rev ''s3cret'')))])"
  proof -
    have l: "json_loads demo_lib = flat_loads" by (simp add: demo_lib_def)
    have q: "dq \<notin> set ''requestId''" "dq \<notin> set ''R2''" "dq \<notin> set ''cipher''"
      by (simp_all add: dq_def)
    show ?thesis
      unfolding l by (rule flat_loads_dumps_two [OF q dq_notin_b64encode])
  qed
  have a6: "''R2'' \<noteq> ''R1''" by simp
  have a7: "b64encode (rev ''s3cret'') \<noteq> []" by simp
  have a8: "MySecurity_rsa_decrypt demo_lib 7 (JStr (b64encode (rev ''s3cret''))) = Some ''s3cret''"
  proof -
    have "rsa_oaep_decrypt demo_lib 7 (rev ''s3cret'') = Some ''s3cret''"
      by (simp add: demo_lib_def)
    moreover have "utf8_valid demo_lib ''s3cret''" by (simp add: demo_lib_def)
    ultimately show ?thesis
      unfolding MySecurity_rsa_decrypt_def
      by (simp only: json.case demo_lib_b64 option.case if_True)
  qed
  have r: "snd (reply_credentials demo_lib ''s3cret'') = JStr ''s3cret''"
    by (simp add: reply_credentials_def demo_lib_def flat_loads_def)
  from handle_password_reply_mismatched_request_id [OF a1 a2 a3 a4 a5 a6 a7 a8]
  have "channel_password (handle_password_reply demo_lib ?ev ?s)
          = snd (reply_credentials demo_lib ''s3cret'')"
    by blast
  with r show ?thesis by (simp only:)
qed

end
